theory Spec2Isabelle
  imports Main
begin

section \<open>rmd: render a Markdown document (main.go)\<close>

text \<open>
  The program is one function, \<^verbatim>\<open>main\<close>: read the input, choose the sink, optionally
  write an HTML preamble, convert, and leave the rest to deferred functions (HTML suffix,
  preview, closing files, removing the temporary directory). The operating system, the
  Markdown engine (goldmark) and the viewer command are outside the program; their answers
  are collected in a record \<open>env\<close>, and \<open>main\<close> is a function of the environment and the
  command-line flags. Go's \<^verbatim>\<open>panic\<close>, \<^verbatim>\<open>defer\<close> and \<^verbatim>\<open>recover\<close> are modelled explicitly:
  the state carries the value being panicked with and the stack of deferred functions.
\<close>

subsection \<open>Data\<close>

type_synonym bytes = string

text \<open>The command line: \<^verbatim>\<open>-i\<close> (default \<^verbatim>\<open>-\<close>), \<^verbatim>\<open>-preview\<close>, \<^verbatim>\<open>-style\<close>.\<close>

record flags =
  inPath :: string
  previewOnly :: bool
  style :: bool

text \<open>
  One constructor for each \<^verbatim>\<open>panic\<close> of \<^verbatim>\<open>main\<close>, in the order of the source:
  opening the input, reading it, \<^verbatim>\<open>os.MkdirTemp\<close>, \<^verbatim>\<open>os.Create\<close>, parsing the prefix
  template, executing it into the sink, \<^verbatim>\<open>md.Convert\<close>, copying the suffix, running
  \<^verbatim>\<open>open\<close>.
\<close>

datatype error =
    InputOpenError
  | InputReadError
  | TempDirError
  | TempFileError
  | TemplateError
  | PrefixWriteError
  | RenderError
  | SuffixWriteError
  | LaunchError

text \<open>
  What reaches standard error: the report of a failed \<^verbatim>\<open>os.RemoveAll\<close>, the line
  \<^verbatim>\<open>Skip preview due to panic\<close>, and the message the Go runtime prints when the
  program ends by a panic nobody recovered.
\<close>

datatype diag =
    RemoveFailed string
  | SkipPreview
  | PanicMessage error

text \<open>The calls that leave the program, in the order they happen.\<close>

datatype event =
    OpenInput string
  | ReadAll
  | CloseInput
  | MkdirTemp
  | CreateFile string
  | ParseTemplate
  | ExecuteTemplate
  | Convert
  | CopySuffix
  | RunOpen string
  | SleepSeconds nat
  | CloseOutput
  | RemoveAll string

text \<open>The deferred functions of \<^verbatim>\<open>main\<close>, named by what they do.\<close>

datatype deferred =
    DeferCloseInput
  | DeferRemoveAll string
  | DeferCloseOutput
  | DeferPreview string
  | DeferSuffix

datatype sink_dest = Stdout | TmpFile string

text \<open>
  The options \<^verbatim>\<open>goldmark.New\<close> is called with: the GFM extension and the renderer
  option \<^verbatim>\<open>html.WithHardWraps()\<close>.
\<close>

datatype extension = GFM

record md_options =
  extensions :: "extension list"
  hard_wraps :: bool

datatype open_result = OpenFails | OpenOk "bytes option"

text \<open>
  The environment of one run.
  \<^item> \<open>stdin_read\<close>: the result of \<^verbatim>\<open>io.ReadAll(os.Stdin)\<close>, the whole stream or a failure.
  \<^item> \<open>os_open p\<close>: \<^verbatim>\<open>os.Open(p)\<close> fails, or succeeds and \<^verbatim>\<open>io.ReadAll\<close> on the file
    gives the whole content or a failure.
  \<^item> \<open>os_mkdir_temp\<close>: the directory \<^verbatim>\<open>os.MkdirTemp("", "rmd")\<close> creates, or a failure.
  \<^item> \<open>os_create p\<close>: whether \<^verbatim>\<open>os.Create(p)\<close> succeeds.
  \<^item> \<open>sink_limit\<close>: how many bytes the sink accepts before a write fails
    (\<open>None\<close>: no write fails).
  \<^item> \<open>md_convert opts src\<close>: the engine, a black box: the HTML it hands to the sink and
    whether it finished without an error of its own.
  \<^item> \<open>open_cmd p\<close>: whether \<^verbatim>\<open>exec.Command("open", p).Run()\<close> succeeds.
  \<^item> \<open>os_remove_all d\<close>: whether \<^verbatim>\<open>os.RemoveAll(d)\<close> succeeds; when it fails the
    directory is still there.
\<close>

record env =
  stdin_read :: "bytes option"
  os_open :: "string \<Rightarrow> open_result"
  os_mkdir_temp :: "string option"
  os_create :: "string \<Rightarrow> bool"
  sink_limit :: "nat option"
  md_convert :: "md_options \<Rightarrow> bytes \<Rightarrow> bytes \<times> bool"
  open_cmd :: "string \<Rightarrow> bool"
  os_remove_all :: "string \<Rightarrow> bool"

text \<open>
  The state of a run: the locals \<^verbatim>\<open>mdTxt\<close> and \<^verbatim>\<open>sink\<close>, the bytes the sink has
  received, the temporary directory of this run with the files in it (while it exists),
  the deferred functions (last registered first), the panic in progress, every panic
  raised so far, standard error and the trace of calls.
\<close>

record state =
  mdTxt :: bytes
  sink :: sink_dest
  written :: bytes
  tmp_dir :: "(string \<times> string list) option"
  defers :: "deferred list"
  panicking :: "error option"
  raised :: "error list"
  stderr :: "diag list"
  trace :: "event list"

definition init_state :: state where
  "init_state = \<lparr>mdTxt = [], sink = Stdout, written = [], tmp_dir = None, defers = [],
     panicking = None, raised = [], stderr = [], trace = []\<rparr>"

subsection \<open>Panic, defer, events\<close>

definition panic :: "error \<Rightarrow> state \<Rightarrow> state" where
  "panic e st = st\<lparr>panicking := Some e, raised := raised st @ [e]\<rparr>"

definition add_defer :: "deferred \<Rightarrow> state \<Rightarrow> state" where
  "add_defer d st = st\<lparr>defers := d # defers st\<rparr>"

definition record_event :: "event \<Rightarrow> state \<Rightarrow> state" where
  "record_event e st = st\<lparr>trace := trace st @ [e]\<rparr>"

definition report :: "diag \<Rightarrow> state \<Rightarrow> state" where
  "report d st = st\<lparr>stderr := stderr st @ [d]\<rparr>"

text \<open>A statement of the body runs only while no panic is in progress.\<close>

definition next_stage :: "state \<Rightarrow> (state \<Rightarrow> state) \<Rightarrow> state" where
  "next_stage st f = (if panicking st = None then f st else st)"

subsection \<open>The sink\<close>

text \<open>
  A write appends to the sink; past the limit of the environment the part that still
  fits is written and the write fails.
\<close>

definition sink_write :: "env \<Rightarrow> bytes \<Rightarrow> state \<Rightarrow> bool \<times> state" where
  "sink_write env bs st =
     (case sink_limit env of
        None \<Rightarrow> (True, st\<lparr>written := written st @ bs\<rparr>)
      | Some n \<Rightarrow>
          if length (written st) + length bs \<le> n
          then (True, st\<lparr>written := written st @ bs\<rparr>)
          else (False, st\<lparr>written := written st @ take (n - length (written st)) bs\<rparr>))"

subsection \<open>The prefix template\<close>

text \<open>
  \<^verbatim>\<open>html/template\<close> is a library, not part of the repository. Its parser is modelled
  for the fragment the program uses: text, and actions \<^verbatim>\<open>{{.Field}}\<close> (spaces allowed
  around the field). An action starts at the first \<^verbatim>\<open>{{\<close>; an action that is not closed
  is an error, as in the library. A template outside the fragment is rejected too, so a
  result \<open>Some\<close> here is a template the library accepts.
\<close>

datatype tnode = TextNode string | FieldNode string

datatype lex_mode =
    LexText | LexBrace | LexActionStart | LexFieldFirst | LexField | LexActionEnd | LexClose

definition is_alnum :: "char \<Rightarrow> bool" where
  "is_alnum c =
     (let n = (of_char c :: nat)
      in (48 \<le> n \<and> n \<le> 57) \<or> (65 \<le> n \<and> n \<le> 90) \<or> (97 \<le> n \<and> n \<le> 122) \<or> n = 95)"

definition text_node :: "string \<Rightarrow> tnode list" where
  "text_node acc = (if acc = [] then [] else [TextNode (rev acc)])"

fun lex_template :: "lex_mode \<Rightarrow> string \<Rightarrow> string \<Rightarrow> tnode list option" where
  "lex_template LexText acc [] = Some (text_node acc)"
| "lex_template LexBrace acc [] = Some (text_node (CHR ''{'' # acc))"
| "lex_template m acc [] = None"
| "lex_template LexText acc (c # cs) =
     (if c = CHR ''{'' then lex_template LexBrace acc cs
      else lex_template LexText (c # acc) cs)"
| "lex_template LexBrace acc (c # cs) =
     (if c = CHR ''{''
      then map_option (\<lambda>ns. text_node acc @ ns) (lex_template LexActionStart [] cs)
      else lex_template LexText (c # CHR ''{'' # acc) cs)"
| "lex_template LexActionStart acc (c # cs) =
     (if c = CHR '' '' then lex_template LexActionStart acc cs
      else if c = CHR ''.'' then lex_template LexFieldFirst [] cs
      else None)"
| "lex_template LexFieldFirst acc (c # cs) =
     (if is_alnum c then lex_template LexField [c] cs else None)"
| "lex_template LexField acc (c # cs) =
     (if is_alnum c then lex_template LexField (c # acc) cs
      else if c = CHR '' '' then lex_template LexActionEnd acc cs
      else if c = CHR ''}'' then lex_template LexClose acc cs
      else None)"
| "lex_template LexActionEnd acc (c # cs) =
     (if c = CHR '' '' then lex_template LexActionEnd acc cs
      else if c = CHR ''}'' then lex_template LexClose acc cs
      else None)"
| "lex_template LexClose acc (c # cs) =
     (if c = CHR ''}''
      then map_option ((#) (FieldNode (rev acc))) (lex_template LexText [] cs)
      else None)"

definition template_parse :: "string \<Rightarrow> tnode list option" where
  "template_parse src = lex_template LexText [] src"

text \<open>
  Executing a template writes its nodes to the sink one after the other and stops at the
  first failure. A field is looked up in the data; the value of \<^verbatim>\<open>.CSS\<close> has the type
  \<^verbatim>\<open>template.CSS\<close>, which the library writes as it is.
\<close>

fun template_execute :: "env \<Rightarrow> (string \<times> bytes) list \<Rightarrow> tnode list \<Rightarrow> state \<Rightarrow> bool \<times> state" where
  "template_execute env data [] st = (True, st)"
| "template_execute env data (TextNode s # ns) st =
     (case sink_write env s st of
        (True, st') \<Rightarrow> template_execute env data ns st'
      | (False, st') \<Rightarrow> (False, st'))"
| "template_execute env data (FieldNode f # ns) st =
     (case map_of data f of
        None \<Rightarrow> (False, st)
      | Some v \<Rightarrow>
          (case sink_write env v st of
             (True, st') \<Rightarrow> template_execute env data ns st'
           | (False, st') \<Rightarrow> (False, st')))"

text \<open>The literal given to \<^verbatim>\<open>Parse\<close>, and the literal the deferred function copies.\<close>

definition htmlPrefixWithCSS :: string where
  \<open>htmlPrefixWithCSS =
     ''<html>\<newline><head>\<newline><style>\<newline>{{.CSS}}\<newline></style>\<newline></head>\<newline><body>\<newline><article class="markdown-body">\<newline>''\<close>

definition htmlSuffix :: string where
  \<open>htmlSuffix = ''\<newline></article>\<newline></body>\<newline></html>''\<close>

text \<open>
  The style sheet \<^verbatim>\<open>markDownStyleGithubCSS\<close>, line by line (the literal starts with a
  newline).
\<close>

definition markDownStyleGithubCSS :: string where
  \<open>markDownStyleGithubCSS = concat
  [''\<newline>'',
   ''/* light */\<newline>'',
   ''.markdown-body {\<newline>'',
   ''  color-scheme: light;\<newline>'',
   ''  -ms-text-size-adjust: 100%;\<newline>'',
   ''  -webkit-text-size-adjust: 100%;\<newline>'',
   ''  color: #1f2328;\<newline>'',
   ''  background-color: #ffffff;\<newline>'',
   ''  font-family: -apple-system,BlinkMacSystemFont,"Segoe UI","Noto Sans",Helvetica,Arial,sans-serif,"Apple Color Emoji","Segoe UI Emoji";\<newline>'',
   ''  font-size: 16px;\<newline>'',
   ''  word-wrap: break-word;\<newline>'',
   ''  margin: 0;\<newline>'',
   ''  min-height: 100vh;\<newline>'',
   ''  line-height: 1.5;\<newline>'',
   ''  scroll-behavior: smooth;\<newline>'',
   ''}\<newline>'',
   ''\<newline>'',
   ''.markdown-body .octicon {\<newline>'',
   ''  display: inline-block;\<newline>'',
   ''  fill: currentColor;\<newline>'',
   ''  vertical-align: text-bottom;\<newline>'',
   ''}\<newline>'',
   ''\<newline>'',
   ''.markdown-body h1:hover .anchor .octicon-link:before,\<newline>'',
   ''.markdown-body h2:hover .anchor .octicon-link:before,\<newline>'',
   ''.markdown-body h3:hover .anchor .octicon-link:before,\<newline>'',
   ''.markdown-body h4:hover .anchor .octicon-link:before,\<newline>'',
   ''.markdown-body h5:hover .anchor .octicon-link:before,\<newline>'',
   ''.markdown-body h6:hover .anchor .octicon-link:before {\<newline>'',
   ''  width: 16px;\<newline>'',
   ''  height: 16px;\<newline>'',
   ''  content: \' \';\<newline>'',
   ''  display: inline-block;\<newline>'',
   ''  background-color: currentColor;\<newline>'',
   ''  -webkit-mask-image: url("data:image/svg+xml,<svg xmlns=\'http://www.w3.org/2000/svg\' viewBox=\'0 0 16 16\' version=\'1.1\' aria-hidden=\'true\'><path fill-rule=\'evenodd\' d=\'M7.775 3.275a.75.75 0 001.06 1.06l1.25-1.25a2 2 0 112.83 2.83l-2.5 2.5a2 2 0 01-2.83 0 .75.75 0 00-1.06 1.06 3.5 3.5 0 004.95 0l2.5-2.5a3.5 3.5 0 00-4.95-4.95l-1.25 1.25zm-4.69 9.64a2 2 0 010-2.83l2.5-2.5a2 2 0 012.83 0 .75.75 0 001.06-1.06 3.5 3.5 0 00-4.95 0l-2.5 2.5a3.5 3.5 0 004.95 4.95l1.25-1.25a.75.75 0 00-1.06-1.06l-1.25 1.25a2 2 0 01-2.83 0z\'></path></svg>");\<newline>'',
   ''  mask-image: url("data:image/svg+xml,<svg xmlns=\'http://www.w3.org/2000/svg\' viewBox=\'0 0 16 16\' version=\'1.1\' aria-hidden=\'true\'><path fill-rule=\'evenodd\' d=\'M7.775 3.275a.75.75 0 001.06 1.06l1.25-1.25a2 2 0 112.83 2.83l-2.5 2.5a2 2 0 01-2.83 0 .75.75 0 00-1.06 1.06 3.5 3.5 0 004.95 0l2.5-2.5a3.5 3.5 0 00-4.95-4.95l-1.25 1.25zm-4.69 9.64a2 2 0 010-2.83l2.5-2.5a2 2 0 012.83 0 .75.75 0 001.06-1.06 3.5 3.5 0 00-4.95 0l-2.5 2.5a3.5 3.5 0 004.95 4.95l1.25-1.25a.75.75 0 00-1.06-1.06l-1.25 1.25a2 2 0 01-2.83 0z\'></path></svg>");\<newline>'',
   ''}\<newline>'',
   ''\<newline>'',
   ''.markdown-body details,\<newline>'',
   ''.markdown-body figcaption,\<newline>'',
   ''.markdown-body figure {\<newline>'',
   ''  display: block;\<newline>'',
   ''}\<newline>'',
   ''\<newline>'',
   ''.markdown-body summary {\<newline>'',
   ''  display: list-item;\<newline>'',
   ''}\<newline>'',
   ''\<newline>'',
   ''.markdown-body [hidden] {\<newline>'',
   ''  display: none !important;\<newline>'',
   ''}\<newline>'',
   ''\<newline>'',
   ''.markdown-body a {\<newline>'',
   ''  background-color: transparent;\<newline>'',
   ''  color: #0969da;\<newline>'',
   ''  text-decoration: none;\<newline>'',
   ''}\<newline>'',
   ''\<newline>'',
   ''.markdown-body abbr[title] {\<newline>'',
   ''  border-bottom: none;\<newline>'',
   ''  -webkit-text-decoration: underline dotted;\<newline>'',
   ''  text-decoration: underline dotted;\<newline>'',
   ''}\<newline>'',
   ''\<newline>'',
   ''.markdown-body b,\<newline>'',
   ''.markdown-body strong {\<newline>'',
   ''  font-weight: 600;\<newline>'',
   ''}\<newline>'',
   ''\<newline>'',
   ''.markdown-body dfn {\<newline>'',
   ''  font-style: italic;\<newline>'',
   ''}\<newline>'',
   ''\<newline>'',
   ''.markdown-body h1 {\<newline>'',
   ''  margin: .67em 0;\<newline>'',
   ''  font-weight: 600;\<newline>'',
   ''  padding-bottom: .3em;\<newline>'',
   ''  font-size: 2em;\<newline>'',
   ''  border-bottom: 1px solid #d1d9e0b3;\<newline>'',
   ''}\<newline>'',
   ''\<newline>'',
   ''.markdown-body mark {\<newline>'',
   ''  background-color: #fff8c5;\<newline>'',
   ''  color: #1f2328;\<newline>'',
   ''}\<newline>'',
   ''\<newline>'',
   ''.markdown-body small {\<newline>'',
   ''  font-size: 90%;\<newline>'',
   ''}\<newline>'',
   ''\<newline>'',
   ''.markdown-body sub,\<newline>'',
   ''.markdown-body sup {\<newline>'',
   ''  font-size: 75%;\<newline>'',
   ''  line-height: 0;\<newline>'',
   ''  position: relative;\<newline>'',
   ''  vertical-align: baseline;\<newline>'',
   ''}\<newline>'',
   ''\<newline>'',
   ''.markdown-body sub {\<newline>'',
   ''  bottom: -0.25em;\<newline>'',
   ''}\<newline>'',
   ''\<newline>'',
   ''.markdown-body sup {\<newline>'',
   ''  top: -0.5em;\<newline>'',
   ''}\<newline>'',
   ''\<newline>'',
   ''.markdown-body img {\<newline>'',
   ''  border-style: none;\<newline>'',
   ''  max-width: 100%;\<newline>'',
   ''  box-sizing: content-box;\<newline>'',
   ''}\<newline>'',
   ''\<newline>'',
   ''.markdown-body code,\<newline>'',
   ''.markdown-body kbd,\<newline>'',
   ''.markdown-body pre,\<newline>'',
   ''.markdown-body samp {\<newline>'',
   ''  font-family: monospace;\<newline>'',
   ''  font-size: 1em;\<newline>'',
   ''}\<newline>'',
   ''\<newline>'',
   ''.markdown-body figure {\<newline>'',
   ''  margin: 1em 2.5rem;\<newline>'',
   ''}\<newline>'',
   ''\<newline>'',
   ''.markdown-body hr {\<newline>'',
   ''  box-sizing: content-box;\<newline>'',
   ''  overflow: hidden;\<newline>'',
   ''  background: transparent;\<newline>'',
   ''  border-bottom: 1px solid #d1d9e0b3;\<newline>'',
   ''  height: .25em;\<newline>'',
   ''  padding: 0;\<newline>'',
   ''  margin: 1.5rem 0;\<newline>'',
   ''  background-color: #d1d9e0;\<newline>'',
   ''  border: 0;\<newline>'',
   ''}\<newline>'',
   ''\<newline>'',
   ''.markdown-body input {\<newline>'',
   ''  margin: 0;\<newline>'',
   ''  overflow: visible;\<newline>'',
   ''  font-family: inherit;\<newline>'',
   ''  font-size: inherit;\<newline>'',
   ''  line-height: inherit;\<newline>'',
   ''  font: inherit;\<newline>'',
   ''}\<newline>'',
   ''\<newline>'',
   ''.markdown-body [type=button],\<newline>'',
   ''.markdown-body [type=reset],\<newline>'',
   ''.markdown-body [type=submit] {\<newline>'',
   ''  -webkit-appearance: button;\<newline>'',
   ''  appearance: button;\<newline>'',
   ''}\<newline>'',
   ''\<newline>'',
   ''.markdown-body [type=checkbox],\<newline>'',
   ''.markdown-body [type=radio] {\<newline>'',
   ''  box-sizing: border-box;\<newline>'',
   ''  padding: 0;\<newline>'',
   ''}\<newline>'',
   ''\<newline>'',
   ''.markdown-body [type=number]::-webkit-inner-spin-button,\<newline>'',
   ''.markdown-body [type=number]::-webkit-outer-spin-button {\<newline>'',
   ''  height: auto;\<newline>'',
   ''}\<newline>'',
   ''\<newline>'',
   ''.markdown-body [type=search]::-webkit-search-cancel-button,\<newline>'',
   ''.markdown-body [type=search]::-webkit-search-decoration {\<newline>'',
   ''  -webkit-appearance: none;\<newline>'',
   ''  appearance: none;\<newline>'',
   ''}\<newline>'',
   ''\<newline>'',
   ''.markdown-body ::-webkit-input-placeholder {\<newline>'',
   ''  color: inherit;\<newline>'',
   ''  opacity: .54;\<newline>'',
   ''}\<newline>'',
   ''\<newline>'',
   ''.markdown-body ::-webkit-file-upload-button {\<newline>'',
   ''  -webkit-appearance: button;\<newline>'',
   ''  appearance: button;\<newline>'',
   ''  font: inherit;\<newline>'',
   ''}\<newline>'',
   ''\<newline>'',
   ''.markdown-body a:hover {\<newline>'',
   ''  text-decoration: underline;\<newline>'',
   ''}\<newline>'',
   ''\<newline>'',
   ''.markdown-body ::placeholder {\<newline>'',
   ''  color: #59636e;\<newline>'',
   ''  opacity: 1;\<newline>'',
   ''}\<newline>'',
   ''\<newline>'',
   ''.markdown-body hr::before {\<newline>'',
   ''  display: table;\<newline>'',
   ''  content: "";\<newline>'',
   ''}\<newline>'',
   ''\<newline>'',
   ''.markdown-body hr::after {\<newline>'',
   ''  display: table;\<newline>'',
   ''  clear: both;\<newline>'',
   ''  content: "";\<newline>'',
   ''}\<newline>'',
   ''\<newline>'',
   ''.markdown-body table {\<newline>'',
   ''  border-spacing: 0;\<newline>'',
   ''  border-collapse: collapse;\<newline>'',
   ''  display: block;\<newline>'',
   ''  width: max-content;\<newline>'',
   ''  max-width: 100%;\<newline>'',
   ''  overflow: auto;\<newline>'',
   ''  font-variant: tabular-nums;\<newline>'',
   ''}\<newline>'',
   ''\<newline>'',
   ''.markdown-body td,\<newline>'',
   ''.markdown-body th {\<newline>'',
   ''  padding: 0;\<newline>'',
   ''}\<newline>'',
   ''\<newline>'',
   ''.markdown-body details summary {\<newline>'',
   ''  cursor: pointer;\<newline>'',
   ''}\<newline>'',
   ''\<newline>'',
   ''.markdown-body a:focus,\<newline>'',
   ''.markdown-body [role=button]:focus,\<newline>'',
   ''.markdown-body input[type=radio]:focus,\<newline>'',
   ''.markdown-body input[type=checkbox]:focus {\<newline>'',
   ''  outline: 2px solid #0969da;\<newline>'',
   ''  outline-offset: -2px;\<newline>'',
   ''  box-shadow: none;\<newline>'',
   ''}\<newline>'',
   ''\<newline>'',
   ''.markdown-body a:focus:not(:focus-visible),\<newline>'',
   ''.markdown-body [role=button]:focus:not(:focus-visible),\<newline>'',
   ''.markdown-body input[type=radio]:focus:not(:focus-visible),\<newline>'',
   ''.markdown-body input[type=checkbox]:focus:not(:focus-visible) {\<newline>'',
   ''  outline: solid 1px transparent;\<newline>'',
   ''}\<newline>'',
   ''\<newline>'',
   ''.markdown-body a:focus-visible,\<newline>'',
   ''.markdown-body [role=button]:focus-visible,\<newline>'',
   ''.markdown-body input[type=radio]:focus-visible,\<newline>'',
   ''.markdown-body input[type=checkbox]:focus-visible {\<newline>'',
   ''  outline: 2px solid #0969da;\<newline>'',
   ''  outline-offset: -2px;\<newline>'',
   ''  box-shadow: none;\<newline>'',
   ''}\<newline>'',
   ''\<newline>'',
   ''.markdown-body a:not([class]):focus,\<newline>'',
   ''.markdown-body a:not([class]):focus-visible,\<newline>'',
   ''.markdown-body input[type=radio]:focus,\<newline>'',
   ''.markdown-body input[type=radio]:focus-visible,\<newline>'',
   ''.markdown-body input[type=checkbox]:focus,\<newline>'',
   ''.markdown-body input[type=checkbox]:focus-visible {\<newline>'',
   ''  outline-offset: 0;\<newline>'',
   ''}\<newline>'',
   ''\<newline>'',
   ''.markdown-body kbd {\<newline>'',
   ''  display: inline-block;\<newline>'',
   ''  padding: 0.25rem;\<newline>'',
   ''  font: 11px ui-monospace, SFMono-Regular, SF Mono, Menlo, Consolas, Liberation Mono, monospace;\<newline>'',
   ''  line-height: 10px;\<newline>'',
   ''  color: #1f2328;\<newline>'',
   ''  vertical-align: middle;\<newline>'',
   ''  background-color: #f6f8fa;\<newline>'',
   ''  border: solid 1px #d1d9e0b3;\<newline>'',
   ''  border-bottom-color: #d1d9e0b3;\<newline>'',
   ''  border-radius: 6px;\<newline>'',
   ''  box-shadow: inset 0 -1px 0 #d1d9e0b3;\<newline>'',
   ''}\<newline>'',
   ''\<newline>'',
   ''.markdown-body h1,\<newline>'',
   ''.markdown-body h2,\<newline>'',
   ''.markdown-body h3,\<newline>'',
   ''.markdown-body h4,\<newline>'',
   ''.markdown-body h5,\<newline>'',
   ''.markdown-body h6 {\<newline>'',
   ''  margin-top: 1.5rem;\<newline>'',
   ''  margin-bottom: 1rem;\<newline>'',
   ''  font-weight: 600;\<newline>'',
   ''  line-height: 1.25;\<newline>'',
   ''}\<newline>'',
   ''\<newline>'',
   ''.markdown-body h2 {\<newline>'',
   ''  font-weight: 600;\<newline>'',
   ''  padding-bottom: .3em;\<newline>'',
   ''  font-size: 1.5em;\<newline>'',
   ''  border-bottom: 1px solid #d1d9e0b3;\<newline>'',
   ''}\<newline>'',
   ''\<newline>'',
   ''.markdown-body h3 {\<newline>'',
   ''  font-weight: 600;\<newline>'',
   ''  font-size: 1.25em;\<newline>'',
   ''}\<newline>'',
   ''\<newline>'',
   ''.markdown-body h4 {\<newline>'',
   ''  font-weight: 600;\<newline>'',
   ''  font-size: 1em;\<newline>'',
   ''}\<newline>'',
   ''\<newline>'',
   ''.markdown-body h5 {\<newline>'',
   ''  font-weight: 600;\<newline>'',
   ''  font-size: .875em;\<newline>'',
   ''}\<newline>'',
   ''\<newline>'',
   ''.markdown-body h6 {\<newline>'',
   ''  font-weight: 600;\<newline>'',
   ''  font-size: .85em;\<newline>'',
   ''  color: #59636e;\<newline>'',
   ''}\<newline>'',
   ''\<newline>'',
   ''.markdown-body p {\<newline>'',
   ''  margin-top: 0;\<newline>'',
   ''  margin-bottom: 10px;\<newline>'',
   ''}\<newline>'',
   ''\<newline>'',
   ''.markdown-body blockquote {\<newline>'',
   ''  margin: 0;\<newline>'',
   ''  padding: 0 1em;\<newline>'',
   ''  color: #59636e;\<newline>'',
   ''  border-left: .25em solid #d1d9e0;\<newline>'',
   ''}\<newline>'',
   ''\<newline>'',
   ''.markdown-body ul,\<newline>'',
   ''.markdown-body ol {\<newline>'',
   ''  margin-top: 0;\<newline>'',
   ''  margin-bottom: 0;\<newline>'',
   ''  padding-left: 2em;\<newline>'',
   ''}\<newline>'',
   ''\<newline>'',
   ''.markdown-body ol ol,\<newline>'',
   ''.markdown-body ul ol {\<newline>'',
   ''  list-style-type: lower-roman;\<newline>'',
   ''}\<newline>'',
   ''\<newline>'',
   ''.markdown-body ul ul ol,\<newline>'',
   ''.markdown-body ul ol ol,\<newline>'',
   ''.markdown-body ol ul ol,\<newline>'',
   ''.markdown-body ol ol ol {\<newline>'',
   ''  list-style-type: lower-alpha;\<newline>'',
   ''}\<newline>'',
   ''\<newline>'',
   ''.markdown-body dd {\<newline>'',
   ''  margin-left: 0;\<newline>'',
   ''}\<newline>'',
   ''\<newline>'',
   ''.markdown-body tt,\<newline>'',
   ''.markdown-body code,\<newline>'',
   ''.markdown-body samp {\<newline>'',
   ''  font-family: ui-monospace, SFMono-Regular, SF Mono, Menlo, Consolas, Liberation Mono, monospace;\<newline>'',
   ''  font-size: 12px;\<newline>'',
   ''}\<newline>'',
   ''\<newline>'',
   ''.markdown-body pre {\<newline>'',
   ''  margin-top: 0;\<newline>'',
   ''  margin-bottom: 0;\<newline>'',
   ''  font-family: ui-monospace, SFMono-Regular, SF Mono, Menlo, Consolas, Liberation Mono, monospace;\<newline>'',
   ''  font-size: 12px;\<newline>'',
   ''  word-wrap: normal;\<newline>'',
   ''}\<newline>'',
   ''\<newline>'',
   ''.markdown-body .octicon {\<newline>'',
   ''  display: inline-block;\<newline>'',
   ''  overflow: visible !important;\<newline>'',
   ''  vertical-align: text-bottom;\<newline>'',
   ''  fill: currentColor;\<newline>'',
   ''}\<newline>'',
   ''\<newline>'',
   ''.markdown-body input::-webkit-outer-spin-button,\<newline>'',
   ''.markdown-body input::-webkit-inner-spin-button {\<newline>'',
   ''  margin: 0;\<newline>'',
   ''  appearance: none;\<newline>'',
   ''}\<newline>'',
   ''\<newline>'',
   ''.markdown-body .mr-2 {\<newline>'',
   ''  margin-right: 0.5rem !important;\<newline>'',
   ''}\<newline>'',
   ''\<newline>'',
   ''.markdown-body::before {\<newline>'',
   ''  display: table;\<newline>'',
   ''  content: "";\<newline>'',
   ''}\<newline>'',
   ''\<newline>'',
   ''.markdown-body::after {\<newline>'',
   ''  display: table;\<newline>'',
   ''  clear: both;\<newline>'',
   ''  content: "";\<newline>'',
   ''}\<newline>'',
   ''\<newline>'',
   ''.markdown-body>*:first-child {\<newline>'',
   ''  margin-top: 0 !important;\<newline>'',
   ''}\<newline>'',
   ''\<newline>'',
   ''.markdown-body>*:last-child {\<newline>'',
   ''  margin-bottom: 0 !important;\<newline>'',
   ''}\<newline>'',
   ''\<newline>'',
   ''.markdown-body a:not([href]) {\<newline>'',
   ''  color: inherit;\<newline>'',
   ''  text-decoration: none;\<newline>'',
   ''}\<newline>'',
   ''\<newline>'',
   ''.markdown-body .absent {\<newline>'',
   ''  color: #d1242f;\<newline>'',
   ''}\<newline>'',
   ''\<newline>'',
   ''.markdown-body .anchor {\<newline>'',
   ''  float: left;\<newline>'',
   ''  padding-right: 0.25rem;\<newline>'',
   ''  margin-left: -20px;\<newline>'',
   ''  line-height: 1;\<newline>'',
   ''}\<newline>'',
   ''\<newline>'',
   ''.markdown-body .anchor:focus {\<newline>'',
   ''  outline: none;\<newline>'',
   ''}\<newline>'',
   ''\<newline>'',
   ''.markdown-body p,\<newline>'',
   ''.markdown-body blockquote,\<newline>'',
   ''.markdown-body ul,\<newline>'',
   ''.markdown-body ol,\<newline>'',
   ''.markdown-body dl,\<newline>'',
   ''.markdown-body table,\<newline>'',
   ''.markdown-body pre,\<newline>'',
   ''.markdown-body details {\<newline>'',
   ''  margin-top: 0;\<newline>'',
   ''  margin-bottom: 1rem;\<newline>'',
   ''}\<newline>'',
   ''\<newline>'',
   ''.markdown-body blockquote>:first-child {\<newline>'',
   ''  margin-top: 0;\<newline>'',
   ''}\<newline>'',
   ''\<newline>'',
   ''.markdown-body blockquote>:last-child {\<newline>'',
   ''  margin-bottom: 0;\<newline>'',
   ''}\<newline>'',
   ''\<newline>'',
   ''.markdown-body h1 .octicon-link,\<newline>'',
   ''.markdown-body h2 .octicon-link,\<newline>'',
   ''.markdown-body h3 .octicon-link,\<newline>'',
   ''.markdown-body h4 .octicon-link,\<newline>'',
   ''.markdown-body h5 .octicon-link,\<newline>'',
   ''.markdown-body h6 .octicon-link {\<newline>'',
   ''  color: #1f2328;\<newline>'',
   ''  vertical-align: middle;\<newline>'',
   ''  visibility: hidden;\<newline>'',
   ''}\<newline>'',
   ''\<newline>'',
   ''.markdown-body h1:hover .anchor,\<newline>'',
   ''.markdown-body h2:hover .anchor,\<newline>'',
   ''.markdown-body h3:hover .anchor,\<newline>'',
   ''.markdown-body h4:hover .anchor,\<newline>'',
   ''.markdown-body h5:hover .anchor,\<newline>'',
   ''.markdown-body h6:hover .anchor {\<newline>'',
   ''  text-decoration: none;\<newline>'',
   ''}\<newline>'',
   ''\<newline>'',
   ''.markdown-body h1:hover .anchor .octicon-link,\<newline>'',
   ''.markdown-body h2:hover .anchor .octicon-link,\<newline>'',
   ''.markdown-body h3:hover .anchor .octicon-link,\<newline>'',
   ''.markdown-body h4:hover .anchor .octicon-link,\<newline>'',
   ''.markdown-body h5:hover .anchor .octicon-link,\<newline>'',
   ''.markdown-body h6:hover .anchor .octicon-link {\<newline>'',
   ''  visibility: visible;\<newline>'',
   ''}\<newline>'',
   ''\<newline>'',
   ''.markdown-body h1 tt,\<newline>'',
   ''.markdown-body h1 code,\<newline>'',
   ''.markdown-body h2 tt,\<newline>'',
   ''.markdown-body h2 code,\<newline>'',
   ''.markdown-body h3 tt,\<newline>'',
   ''.markdown-body h3 code,\<newline>'',
   ''.markdown-body h4 tt,\<newline>'',
   ''.markdown-body h4 code,\<newline>'',
   ''.markdown-body h5 tt,\<newline>'',
   ''.markdown-body h5 code,\<newline>'',
   ''.markdown-body h6 tt,\<newline>'',
   ''.markdown-body h6 code {\<newline>'',
   ''  padding: 0 .2em;\<newline>'',
   ''  font-size: inherit;\<newline>'',
   ''}\<newline>'',
   ''\<newline>'',
   ''.markdown-body summary h1,\<newline>'',
   ''.markdown-body summary h2,\<newline>'',
   ''.markdown-body summary h3,\<newline>'',
   ''.markdown-body summary h4,\<newline>'',
   ''.markdown-body summary h5,\<newline>'',
   ''.markdown-body summary h6 {\<newline>'',
   ''  display: inline-block;\<newline>'',
   ''}\<newline>'',
   ''\<newline>'',
   ''.markdown-body summary h1 .anchor,\<newline>'',
   ''.markdown-body summary h2 .anchor,\<newline>'',
   ''.markdown-body summary h3 .anchor,\<newline>'',
   ''.markdown-body summary h4 .anchor,\<newline>'',
   ''.markdown-body summary h5 .anchor,\<newline>'',
   ''.markdown-body summary h6 .anchor {\<newline>'',
   ''  margin-left: -40px;\<newline>'',
   ''}\<newline>'',
   ''\<newline>'',
   ''.markdown-body summary h1,\<newline>'',
   ''.markdown-body summary h2 {\<newline>'',
   ''  padding-bottom: 0;\<newline>'',
   ''  border-bottom: 0;\<newline>'',
   ''}\<newline>'',
   ''\<newline>'',
   ''.markdown-body ul.no-list,\<newline>'',
   ''.markdown-body ol.no-list {\<newline>'',
   ''  padding: 0;\<newline>'',
   ''  list-style-type: none;\<newline>'',
   ''}\<newline>'',
   ''\<newline>'',
   ''.markdown-body ol[type="a s"] {\<newline>'',
   ''  list-style-type: lower-alpha;\<newline>'',
   ''}\<newline>'',
   ''\<newline>'',
   ''.markdown-body ol[type="A s"] {\<newline>'',
   ''  list-style-type: upper-alpha;\<newline>'',
   ''}\<newline>'',
   ''\<newline>'',
   ''.markdown-body ol[type="i s"] {\<newline>'',
   ''  list-style-type: lower-roman;\<newline>'',
   ''}\<newline>'',
   ''\<newline>'',
   ''.markdown-body ol[type="I s"] {\<newline>'',
   ''  list-style-type: upper-roman;\<newline>'',
   ''}\<newline>'',
   ''\<newline>'',
   ''.markdown-body ol[type="1"] {\<newline>'',
   ''  list-style-type: decimal;\<newline>'',
   ''}\<newline>'',
   ''\<newline>'',
   ''.markdown-body div>ol:not([type]) {\<newline>'',
   ''  list-style-type: decimal;\<newline>'',
   ''}\<newline>'',
   ''\<newline>'',
   ''.markdown-body ul ul,\<newline>'',
   ''.markdown-body ul ol,\<newline>'',
   ''.markdown-body ol ol,\<newline>'',
   ''.markdown-body ol ul {\<newline>'',
   ''  margin-top: 0;\<newline>'',
   ''  margin-bottom: 0;\<newline>'',
   ''}\<newline>'',
   ''\<newline>'',
   ''.markdown-body li>p {\<newline>'',
   ''  margin-top: 1rem;\<newline>'',
   ''}\<newline>'',
   ''\<newline>'',
   ''.markdown-body li+li {\<newline>'',
   ''  margin-top: .25em;\<newline>'',
   ''}\<newline>'',
   ''\<newline>'',
   ''.markdown-body dl {\<newline>'',
   ''  padding: 0;\<newline>'',
   ''}\<newline>'',
   ''\<newline>'',
   ''.markdown-body dl dt {\<newline>'',
   ''  padding: 0;\<newline>'',
   ''  margin-top: 1rem;\<newline>'',
   ''  font-size: 1em;\<newline>'',
   ''  font-style: italic;\<newline>'',
   ''  font-weight: 600;\<newline>'',
   ''}\<newline>'',
   ''\<newline>'',
   ''.markdown-body dl dd {\<newline>'',
   ''  padding: 0 1rem;\<newline>'',
   ''  margin-bottom: 1rem;\<newline>'',
   ''}\<newline>'',
   ''\<newline>'',
   ''.markdown-body table th {\<newline>'',
   ''  font-weight: 600;\<newline>'',
   ''}\<newline>'',
   ''\<newline>'',
   ''.markdown-body table th,\<newline>'',
   ''.markdown-body table td {\<newline>'',
   ''  padding: 6px 13px;\<newline>'',
   ''  border: 1px solid #d1d9e0;\<newline>'',
   ''}\<newline>'',
   ''\<newline>'',
   ''.markdown-body table td>:last-child {\<newline>'',
   ''  margin-bottom: 0;\<newline>'',
   ''}\<newline>'',
   ''\<newline>'',
   ''.markdown-body table tr {\<newline>'',
   ''  background-color: #ffffff;\<newline>'',
   ''  border-top: 1px solid #d1d9e0b3;\<newline>'',
   ''}\<newline>'',
   ''\<newline>'',
   ''.markdown-body table tr:nth-child(2n) {\<newline>'',
   ''  background-color: #f6f8fa;\<newline>'',
   ''}\<newline>'',
   ''\<newline>'',
   ''.markdown-body table img {\<newline>'',
   ''  background-color: transparent;\<newline>'',
   ''}\<newline>'',
   ''\<newline>'',
   ''.markdown-body img[align=right] {\<newline>'',
   ''  padding-left: 20px;\<newline>'',
   ''}\<newline>'',
   ''\<newline>'',
   ''.markdown-body img[align=left] {\<newline>'',
   ''  padding-right: 20px;\<newline>'',
   ''}\<newline>'',
   ''\<newline>'',
   ''.markdown-body .emoji {\<newline>'',
   ''  max-width: none;\<newline>'',
   ''  vertical-align: text-top;\<newline>'',
   ''  background-color: transparent;\<newline>'',
   ''}\<newline>'',
   ''\<newline>'',
   ''.markdown-body span.frame {\<newline>'',
   ''  display: block;\<newline>'',
   ''  overflow: hidden;\<newline>'',
   ''}\<newline>'',
   ''\<newline>'',
   ''.markdown-body span.frame>span {\<newline>'',
   ''  display: block;\<newline>'',
   ''  float: left;\<newline>'',
   ''  width: auto;\<newline>'',
   ''  padding: 7px;\<newline>'',
   ''  margin: 13px 0 0;\<newline>'',
   ''  overflow: hidden;\<newline>'',
   ''  border: 1px solid #d1d9e0;\<newline>'',
   ''}\<newline>'',
   ''\<newline>'',
   ''.markdown-body span.frame span img {\<newline>'',
   ''  display: block;\<newline>'',
   ''  float: left;\<newline>'',
   ''}\<newline>'',
   ''\<newline>'',
   ''.markdown-body span.frame span span {\<newline>'',
   ''  display: block;\<newline>'',
   ''  padding: 5px 0 0;\<newline>'',
   ''  clear: both;\<newline>'',
   ''  color: #1f2328;\<newline>'',
   ''}\<newline>'',
   ''\<newline>'',
   ''.markdown-body span.align-center {\<newline>'',
   ''  display: block;\<newline>'',
   ''  overflow: hidden;\<newline>'',
   ''  clear: both;\<newline>'',
   ''}\<newline>'',
   ''\<newline>'',
   ''.markdown-body span.align-center>span {\<newline>'',
   ''  display: block;\<newline>'',
   ''  margin: 13px auto 0;\<newline>'',
   ''  overflow: hidden;\<newline>'',
   ''  text-align: center;\<newline>'',
   ''}\<newline>'',
   ''\<newline>'',
   ''.markdown-body span.align-center span img {\<newline>'',
   ''  margin: 0 auto;\<newline>'',
   ''  text-align: center;\<newline>'',
   ''}\<newline>'',
   ''\<newline>'',
   ''.markdown-body span.align-right {\<newline>'',
   ''  display: block;\<newline>'',
   ''  overflow: hidden;\<newline>'',
   ''  clear: both;\<newline>'',
   ''}\<newline>'',
   ''\<newline>'',
   ''.markdown-body span.align-right>span {\<newline>'',
   ''  display: block;\<newline>'',
   ''  margin: 13px 0 0;\<newline>'',
   ''  overflow: hidden;\<newline>'',
   ''  text-align: right;\<newline>'',
   ''}\<newline>'',
   ''\<newline>'',
   ''.markdown-body span.align-right span img {\<newline>'',
   ''  margin: 0;\<newline>'',
   ''  text-align: right;\<newline>'',
   ''}\<newline>'',
   ''\<newline>'',
   ''.markdown-body span.float-left {\<newline>'',
   ''  display: block;\<newline>'',
   ''  float: left;\<newline>'',
   ''  margin-right: 13px;\<newline>'',
   ''  overflow: hidden;\<newline>'',
   ''}\<newline>'',
   ''\<newline>'',
   ''.markdown-body span.float-left span {\<newline>'',
   ''  margin: 13px 0 0;\<newline>'',
   ''}\<newline>'',
   ''\<newline>'',
   ''.markdown-body span.float-right {\<newline>'',
   ''  display: block;\<newline>'',
   ''  float: right;\<newline>'',
   ''  margin-left: 13px;\<newline>'',
   ''  overflow: hidden;\<newline>'',
   ''}\<newline>'',
   ''\<newline>'',
   ''.markdown-body span.float-right>span {\<newline>'',
   ''  display: block;\<newline>'',
   ''  margin: 13px auto 0;\<newline>'',
   ''  overflow: hidden;\<newline>'',
   ''  text-align: right;\<newline>'',
   ''}\<newline>'',
   ''\<newline>'',
   ''.markdown-body code,\<newline>'',
   ''.markdown-body tt {\<newline>'',
   ''  padding: .2em .4em;\<newline>'',
   ''  margin: 0;\<newline>'',
   ''  font-size: 85%;\<newline>'',
   ''  white-space: break-spaces;\<newline>'',
   ''  background-color: #818b981f;\<newline>'',
   ''  border-radius: 6px;\<newline>'',
   ''}\<newline>'',
   ''\<newline>'',
   ''.markdown-body code br,\<newline>'',
   ''.markdown-body tt br {\<newline>'',
   ''  display: none;\<newline>'',
   ''}\<newline>'',
   ''\<newline>'',
   ''.markdown-body del code {\<newline>'',
   ''  text-decoration: inherit;\<newline>'',
   ''}\<newline>'',
   ''\<newline>'',
   ''.markdown-body samp {\<newline>'',
   ''  font-size: 85%;\<newline>'',
   ''}\<newline>'',
   ''\<newline>'',
   ''.markdown-body pre code {\<newline>'',
   ''  font-size: 100%;\<newline>'',
   ''}\<newline>'',
   ''\<newline>'',
   ''.markdown-body pre>code {\<newline>'',
   ''  padding: 0;\<newline>'',
   ''  margin: 0;\<newline>'',
   ''  word-break: normal;\<newline>'',
   ''  white-space: pre;\<newline>'',
   ''  background: transparent;\<newline>'',
   ''  border: 0;\<newline>'',
   ''}\<newline>'',
   ''\<newline>'',
   ''.markdown-body .highlight {\<newline>'',
   ''  margin-bottom: 1rem;\<newline>'',
   ''}\<newline>'',
   ''\<newline>'',
   ''.markdown-body .highlight pre {\<newline>'',
   ''  margin-bottom: 0;\<newline>'',
   ''  word-break: normal;\<newline>'',
   ''}\<newline>'',
   ''\<newline>'',
   ''.markdown-body .highlight pre,\<newline>'',
   ''.markdown-body pre {\<newline>'',
   ''  padding: 1rem;\<newline>'',
   ''  overflow: auto;\<newline>'',
   ''  font-size: 85%;\<newline>'',
   ''  line-height: 1.45;\<newline>'',
   ''  color: #1f2328;\<newline>'',
   ''  background-color: #f6f8fa;\<newline>'',
   ''  border-radius: 6px;\<newline>'',
   ''}\<newline>'',
   ''\<newline>'',
   ''.markdown-body pre code,\<newline>'',
   ''.markdown-body pre tt {\<newline>'',
   ''  display: inline;\<newline>'',
   ''  max-width: auto;\<newline>'',
   ''  padding: 0;\<newline>'',
   ''  margin: 0;\<newline>'',
   ''  overflow: visible;\<newline>'',
   ''  line-height: inherit;\<newline>'',
   ''  word-wrap: normal;\<newline>'',
   ''  background-color: transparent;\<newline>'',
   ''  border: 0;\<newline>'',
   ''}\<newline>'',
   ''\<newline>'',
   ''.markdown-body .csv-data td,\<newline>'',
   ''.markdown-body .csv-data th {\<newline>'',
   ''  padding: 5px;\<newline>'',
   ''  overflow: hidden;\<newline>'',
   ''  font-size: 12px;\<newline>'',
   ''  line-height: 1;\<newline>'',
   ''  text-align: left;\<newline>'',
   ''  white-space: nowrap;\<newline>'',
   ''}\<newline>'',
   ''\<newline>'',
   ''.markdown-body .csv-data .blob-num {\<newline>'',
   ''  padding: 10px 0.5rem 9px;\<newline>'',
   ''  text-align: right;\<newline>'',
   ''  background: #ffffff;\<newline>'',
   ''  border: 0;\<newline>'',
   ''}\<newline>'',
   ''\<newline>'',
   ''.markdown-body .csv-data tr {\<newline>'',
   ''  border-top: 0;\<newline>'',
   ''}\<newline>'',
   ''\<newline>'',
   ''.markdown-body .csv-data th {\<newline>'',
   ''  font-weight: 600;\<newline>'',
   ''  background: #f6f8fa;\<newline>'',
   ''  border-top: 0;\<newline>'',
   ''}\<newline>'',
   ''\<newline>'',
   ''.markdown-body [data-footnote-ref]::before {\<newline>'',
   ''  content: "[";\<newline>'',
   ''}\<newline>'',
   ''\<newline>'',
   ''.markdown-body [data-footnote-ref]::after {\<newline>'',
   ''  content: "]";\<newline>'',
   ''}\<newline>'',
   ''\<newline>'',
   ''.markdown-body .footnotes {\<newline>'',
   ''  font-size: 12px;\<newline>'',
   ''  color: #59636e;\<newline>'',
   ''  border-top: 1px solid #d1d9e0;\<newline>'',
   ''}\<newline>'',
   ''\<newline>'',
   ''.markdown-body .footnotes ol {\<newline>'',
   ''  padding-left: 1rem;\<newline>'',
   ''}\<newline>'',
   ''\<newline>'',
   ''.markdown-body .footnotes ol ul {\<newline>'',
   ''  display: inline-block;\<newline>'',
   ''  padding-left: 1rem;\<newline>'',
   ''  margin-top: 1rem;\<newline>'',
   ''}\<newline>'',
   ''\<newline>'',
   ''.markdown-body .footnotes li {\<newline>'',
   ''  position: relative;\<newline>'',
   ''}\<newline>'',
   ''\<newline>'',
   ''.markdown-body .footnotes li:target::before {\<newline>'',
   ''  position: absolute;\<newline>'',
   ''  top: calc(0.5rem*-1);\<newline>'',
   ''  right: calc(0.5rem*-1);\<newline>'',
   ''  bottom: calc(0.5rem*-1);\<newline>'',
   ''  left: calc(1.5rem*-1);\<newline>'',
   ''  pointer-events: none;\<newline>'',
   ''  content: "";\<newline>'',
   ''  border: 2px solid #0969da;\<newline>'',
   ''  border-radius: 6px;\<newline>'',
   ''}\<newline>'',
   ''\<newline>'',
   ''.markdown-body .footnotes li:target {\<newline>'',
   ''  color: #1f2328;\<newline>'',
   ''}\<newline>'',
   ''\<newline>'',
   ''.markdown-body .footnotes .data-footnote-backref g-emoji {\<newline>'',
   ''  font-family: monospace;\<newline>'',
   ''}\<newline>'',
   ''\<newline>'',
   ''.markdown-body body:has(:modal) {\<newline>'',
   ''  padding-right: var(--dialog-scrollgutter) !important;\<newline>'',
   ''}\<newline>'',
   ''\<newline>'',
   ''.markdown-body .pl-c {\<newline>'',
   ''  color: #59636e;\<newline>'',
   ''}\<newline>'',
   ''\<newline>'',
   ''.markdown-body .pl-c1,\<newline>'',
   ''.markdown-body .pl-s .pl-v {\<newline>'',
   ''  color: #0550ae;\<newline>'',
   ''}\<newline>'',
   ''\<newline>'',
   ''.markdown-body .pl-e,\<newline>'',
   ''.markdown-body .pl-en {\<newline>'',
   ''  color: #6639ba;\<newline>'',
   ''}\<newline>'',
   ''\<newline>'',
   ''.markdown-body .pl-smi,\<newline>'',
   ''.markdown-body .pl-s .pl-s1 {\<newline>'',
   ''  color: #1f2328;\<newline>'',
   ''}\<newline>'',
   ''\<newline>'',
   ''.markdown-body .pl-ent {\<newline>'',
   ''  color: #0550ae;\<newline>'',
   ''}\<newline>'',
   ''\<newline>'',
   ''.markdown-body .pl-k {\<newline>'',
   ''  color: #cf222e;\<newline>'',
   ''}\<newline>'',
   ''\<newline>'',
   ''.markdown-body .pl-s,\<newline>'',
   ''.markdown-body .pl-pds,\<newline>'',
   ''.markdown-body .pl-s .pl-pse .pl-s1,\<newline>'',
   ''.markdown-body .pl-sr,\<newline>'',
   ''.markdown-body .pl-sr .pl-cce,\<newline>'',
   ''.markdown-body .pl-sr .pl-sre,\<newline>'',
   ''.markdown-body .pl-sr .pl-sra {\<newline>'',
   ''  color: #0a3069;\<newline>'',
   ''}\<newline>'',
   ''\<newline>'',
   ''.markdown-body .pl-v,\<newline>'',
   ''.markdown-body .pl-smw {\<newline>'',
   ''  color: #953800;\<newline>'',
   ''}\<newline>'',
   ''\<newline>'',
   ''.markdown-body .pl-bu {\<newline>'',
   ''  color: #82071e;\<newline>'',
   ''}\<newline>'',
   ''\<newline>'',
   ''.markdown-body .pl-ii {\<newline>'',
   ''  color: #f6f8fa;\<newline>'',
   ''  background-color: #82071e;\<newline>'',
   ''}\<newline>'',
   ''\<newline>'',
   ''.markdown-body .pl-c2 {\<newline>'',
   ''  color: #f6f8fa;\<newline>'',
   ''  background-color: #cf222e;\<newline>'',
   ''}\<newline>'',
   ''\<newline>'',
   ''.markdown-body .pl-sr .pl-cce {\<newline>'',
   ''  font-weight: bold;\<newline>'',
   ''  color: #116329;\<newline>'',
   ''}\<newline>'',
   ''\<newline>'',
   ''.markdown-body .pl-ml {\<newline>'',
   ''  color: #3b2300;\<newline>'',
   ''}\<newline>'',
   ''\<newline>'',
   ''.markdown-body .pl-mh,\<newline>'',
   ''.markdown-body .pl-mh .pl-en,\<newline>'',
   ''.markdown-body .pl-ms {\<newline>'',
   ''  font-weight: bold;\<newline>'',
   ''  color: #0550ae;\<newline>'',
   ''}\<newline>'',
   ''\<newline>'',
   ''.markdown-body .pl-mi {\<newline>'',
   ''  font-style: italic;\<newline>'',
   ''  color: #1f2328;\<newline>'',
   ''}\<newline>'',
   ''\<newline>'',
   ''.markdown-body .pl-mb {\<newline>'',
   ''  font-weight: bold;\<newline>'',
   ''  color: #1f2328;\<newline>'',
   ''}\<newline>'',
   ''\<newline>'',
   ''.markdown-body .pl-md {\<newline>'',
   ''  color: #82071e;\<newline>'',
   ''  background-color: #ffebe9;\<newline>'',
   ''}\<newline>'',
   ''\<newline>'',
   ''.markdown-body .pl-mi1 {\<newline>'',
   ''  color: #116329;\<newline>'',
   ''  background-color: #dafbe1;\<newline>'',
   ''}\<newline>'',
   ''\<newline>'',
   ''.markdown-body .pl-mc {\<newline>'',
   ''  color: #953800;\<newline>'',
   ''  background-color: #ffd8b5;\<newline>'',
   ''}\<newline>'',
   ''\<newline>'',
   ''.markdown-body .pl-mi2 {\<newline>'',
   ''  color: #d1d9e0;\<newline>'',
   ''  background-color: #0550ae;\<newline>'',
   ''}\<newline>'',
   ''\<newline>'',
   ''.markdown-body .pl-mdr {\<newline>'',
   ''  font-weight: bold;\<newline>'',
   ''  color: #8250df;\<newline>'',
   ''}\<newline>'',
   ''\<newline>'',
   ''.markdown-body .pl-ba {\<newline>'',
   ''  color: #59636e;\<newline>'',
   ''}\<newline>'',
   ''\<newline>'',
   ''.markdown-body .pl-sg {\<newline>'',
   ''  color: #818b98;\<newline>'',
   ''}\<newline>'',
   ''\<newline>'',
   ''.markdown-body .pl-corl {\<newline>'',
   ''  text-decoration: underline;\<newline>'',
   ''  color: #0a3069;\<newline>'',
   ''}\<newline>'',
   ''\<newline>'',
   ''.markdown-body [role=button]:focus:not(:focus-visible),\<newline>'',
   ''.markdown-body [role=tabpanel][tabindex="0"]:focus:not(:focus-visible),\<newline>'',
   ''.markdown-body button:focus:not(:focus-visible),\<newline>'',
   ''.markdown-body summary:focus:not(:focus-visible),\<newline>'',
   ''.markdown-body a:focus:not(:focus-visible) {\<newline>'',
   ''  outline: none;\<newline>'',
   ''  box-shadow: none;\<newline>'',
   ''}\<newline>'',
   ''\<newline>'',
   ''.markdown-body [tabindex="0"]:focus:not(:focus-visible),\<newline>'',
   ''.markdown-body details-dialog:focus:not(:focus-visible) {\<newline>'',
   ''  outline: none;\<newline>'',
   ''}\<newline>'',
   ''\<newline>'',
   ''.markdown-body g-emoji {\<newline>'',
   ''  display: inline-block;\<newline>'',
   ''  min-width: 1ch;\<newline>'',
   ''  font-family: "Apple Color Emoji","Segoe UI Emoji","Segoe UI Symbol";\<newline>'',
   ''  font-size: 1em;\<newline>'',
   ''  font-style: normal !important;\<newline>'',
   ''  font-weight: 400;\<newline>'',
   ''  line-height: 1;\<newline>'',
   ''  vertical-align: -0.075em;\<newline>'',
   ''}\<newline>'',
   ''\<newline>'',
   ''.markdown-body g-emoji img {\<newline>'',
   ''  width: 1em;\<newline>'',
   ''  height: 1em;\<newline>'',
   ''}\<newline>'',
   ''\<newline>'',
   ''.markdown-body .task-list-item {\<newline>'',
   ''  list-style-type: none;\<newline>'',
   ''}\<newline>'',
   ''\<newline>'',
   ''.markdown-body .task-list-item label {\<newline>'',
   ''  font-weight: 400;\<newline>'',
   ''}\<newline>'',
   ''\<newline>'',
   ''.markdown-body .task-list-item.enabled label {\<newline>'',
   ''  cursor: pointer;\<newline>'',
   ''}\<newline>'',
   ''\<newline>'',
   ''.markdown-body .task-list-item+.task-list-item {\<newline>'',
   ''  margin-top: 0.25rem;\<newline>'',
   ''}\<newline>'',
   ''\<newline>'',
   ''.markdown-body .task-list-item .handle {\<newline>'',
   ''  display: none;\<newline>'',
   ''}\<newline>'',
   ''\<newline>'',
   ''.markdown-body .task-list-item-checkbox {\<newline>'',
   ''  margin: 0 .2em .25em -1.4em;\<newline>'',
   ''  vertical-align: middle;\<newline>'',
   ''}\<newline>'',
   ''\<newline>'',
   ''.markdown-body ul:dir(rtl) .task-list-item-checkbox {\<newline>'',
   ''  margin: 0 -1.6em .25em .2em;\<newline>'',
   ''}\<newline>'',
   ''\<newline>'',
   ''.markdown-body ol:dir(rtl) .task-list-item-checkbox {\<newline>'',
   ''  margin: 0 -1.6em .25em .2em;\<newline>'',
   ''}\<newline>'',
   ''\<newline>'',
   ''.markdown-body .contains-task-list:hover .task-list-item-convert-container,\<newline>'',
   ''.markdown-body .contains-task-list:focus-within .task-list-item-convert-container {\<newline>'',
   ''  display: block;\<newline>'',
   ''  width: auto;\<newline>'',
   ''  height: 24px;\<newline>'',
   ''  overflow: visible;\<newline>'',
   ''  clip: auto;\<newline>'',
   ''}\<newline>'',
   ''\<newline>'',
   ''.markdown-body ::-webkit-calendar-picker-indicator {\<newline>'',
   ''  filter: invert(50%);\<newline>'',
   ''}\<newline>'',
   ''\<newline>'',
   ''.markdown-body .markdown-alert {\<newline>'',
   ''  padding: 0.5rem 1rem;\<newline>'',
   ''  margin-bottom: 1rem;\<newline>'',
   ''  color: inherit;\<newline>'',
   ''  border-left: .25em solid #d1d9e0;\<newline>'',
   ''}\<newline>'',
   ''\<newline>'',
   ''.markdown-body .markdown-alert>:first-child {\<newline>'',
   ''  margin-top: 0;\<newline>'',
   ''}\<newline>'',
   ''\<newline>'',
   ''.markdown-body .markdown-alert>:last-child {\<newline>'',
   ''  margin-bottom: 0;\<newline>'',
   ''}\<newline>'',
   ''\<newline>'',
   ''.markdown-body .markdown-alert .markdown-alert-title {\<newline>'',
   ''  display: flex;\<newline>'',
   ''  font-weight: 500;\<newline>'',
   ''  align-items: center;\<newline>'',
   ''  line-height: 1;\<newline>'',
   ''}\<newline>'',
   ''\<newline>'',
   ''.markdown-body .markdown-alert.markdown-alert-note {\<newline>'',
   ''  border-left-color: #0969da;\<newline>'',
   ''}\<newline>'',
   ''\<newline>'',
   ''.markdown-body .markdown-alert.markdown-alert-note .markdown-alert-title {\<newline>'',
   ''  color: #0969da;\<newline>'',
   ''}\<newline>'',
   ''\<newline>'',
   ''.markdown-body .markdown-alert.markdown-alert-important {\<newline>'',
   ''  border-left-color: #8250df;\<newline>'',
   ''}\<newline>'',
   ''\<newline>'',
   ''.markdown-body .markdown-alert.markdown-alert-important .markdown-alert-title {\<newline>'',
   ''  color: #8250df;\<newline>'',
   ''}\<newline>'',
   ''\<newline>'',
   ''.markdown-body .markdown-alert.markdown-alert-warning {\<newline>'',
   ''  border-left-color: #9a6700;\<newline>'',
   ''}\<newline>'',
   ''\<newline>'',
   ''.markdown-body .markdown-alert.markdown-alert-warning .markdown-alert-title {\<newline>'',
   ''  color: #9a6700;\<newline>'',
   ''}\<newline>'',
   ''\<newline>'',
   ''.markdown-body .markdown-alert.markdown-alert-tip {\<newline>'',
   ''  border-left-color: #1a7f37;\<newline>'',
   ''}\<newline>'',
   ''\<newline>'',
   ''.markdown-body .markdown-alert.markdown-alert-tip .markdown-alert-title {\<newline>'',
   ''  color: #1a7f37;\<newline>'',
   ''}\<newline>'',
   ''\<newline>'',
   ''.markdown-body .markdown-alert.markdown-alert-caution {\<newline>'',
   ''  border-left-color: #cf222e;\<newline>'',
   ''}\<newline>'',
   ''\<newline>'',
   ''.markdown-body .markdown-alert.markdown-alert-caution .markdown-alert-title {\<newline>'',
   ''  color: #d1242f;\<newline>'',
   ''}\<newline>'',
   ''\<newline>'',
   ''.markdown-body>*:first-child>.heading-element:first-child {\<newline>'',
   ''  margin-top: 0 !important;\<newline>'',
   ''}\<newline>'',
   ''\<newline>'',
   ''.markdown-body ul[role=\'list\'],\<newline>'',
   ''.markdown-body ol[role=\'list\'] {\<newline>'',
   ''  list-style: none;\<newline>'',
   ''}\<newline>'',
   ''\<newline>'',
   ''.markdown-body html[focus-within] {\<newline>'',
   ''  scroll-behavior: smooth;\<newline>'',
   ''}\<newline>'',
   ''\<newline>'',
   ''.markdown-body html:focus-within {\<newline>'',
   ''  scroll-behavior: smooth;\<newline>'',
   ''}\<newline>'',
   ''\<newline>'',
   ''.markdown-body a:not([class]) {\<newline>'',
   ''  -webkit-text-decoration-skip: ink;\<newline>'',
   ''  text-decoration-skip-ink: auto;\<newline>'',
   ''}\<newline>'',
   ''\<newline>'',
   ''.markdown-body img,\<newline>'',
   ''.markdown-body picture {\<newline>'',
   ''  max-width: 100%;\<newline>'',
   ''  display: block;\<newline>'',
   ''}\<newline>'',
   ''\<newline>'',
   ''.markdown-body [class^=Primer_Brand__Link-module__Link___]::after {\<newline>'',
   ''  width: calc(100% - 20px);\<newline>'',
   ''}\<newline>'']\<close>

subsection \<open>The body of main\<close>

text \<open>
  \<^verbatim>\<open>path.Join(tmpDir, "out.html")\<close>; the directory \<^verbatim>\<open>os.MkdirTemp\<close> returns is taken
  to be a clean path, so that joining is putting a slash between the two.
\<close>

definition path_join :: "string \<Rightarrow> string \<Rightarrow> string" where
  "path_join d f = d @ ''/'' @ f"

definition md :: md_options where
  "md = \<lparr>extensions = [GFM], hard_wraps = True\<rparr>"

definition read_all :: "bytes option \<Rightarrow> state \<Rightarrow> state" where
  "read_all r st =
     (case r of
        None \<Rightarrow> panic InputReadError (record_event ReadAll st)
      | Some bs \<Rightarrow> (record_event ReadAll st)\<lparr>mdTxt := bs\<rparr>)"

text \<open>Standard input unless \<^verbatim>\<open>-i\<close> names a file (neither empty nor \<^verbatim>\<open>-\<close>).\<close>

definition read_input :: "env \<Rightarrow> flags \<Rightarrow> state \<Rightarrow> state" where
  "read_input env fl st =
     (let p = inPath fl in
      if p \<noteq> [] \<and> p \<noteq> ''-'' then
        (case os_open env p of
           OpenFails \<Rightarrow> panic InputOpenError (record_event (OpenInput p) st)
         | OpenOk r \<Rightarrow> read_all r (add_defer DeferCloseInput (record_event (OpenInput p) st)))
      else read_all (stdin_read env) st)"

text \<open>
  Standard output by default. With \<^verbatim>\<open>-preview\<close>: a temporary directory, whose removal is
  deferred at once, then the file \<^verbatim>\<open>out.html\<close> in it, which becomes the sink; closing it
  and the preview are deferred.
\<close>

definition select_sink :: "env \<Rightarrow> flags \<Rightarrow> state \<Rightarrow> state" where
  "select_sink env fl st =
     (if previewOnly fl then
        (case os_mkdir_temp env of
           None \<Rightarrow> panic TempDirError (record_event MkdirTemp st)
         | Some tmpDir \<Rightarrow>
             (let st1 = add_defer (DeferRemoveAll tmpDir)
                          ((record_event MkdirTemp st)\<lparr>tmp_dir := Some (tmpDir, [])\<rparr>);
                  tmpOut = path_join tmpDir ''out.html'';
                  st2 = record_event (CreateFile tmpOut) st1
              in if os_create env tmpOut
                 then add_defer (DeferPreview tmpOut)
                        (add_defer DeferCloseOutput
                           (st2\<lparr>sink := TmpFile tmpOut, tmp_dir := Some (tmpDir, [''out.html''])\<rparr>))
                 else panic TempFileError st2))
      else st)"

text \<open>
  With \<^verbatim>\<open>-style\<close>: parse the prefix template, execute it into the sink with the style
  sheet as \<^verbatim>\<open>.CSS\<close>, and defer the suffix. The template text is a parameter here;
  \<open>main\<close> below fixes it to the literal of the source.
\<close>

definition write_prefix :: "string \<Rightarrow> env \<Rightarrow> flags \<Rightarrow> state \<Rightarrow> state" where
  "write_prefix tmpl env fl st =
     (if style fl then
        (case template_parse tmpl of
           None \<Rightarrow> panic TemplateError (record_event ParseTemplate st)
         | Some t \<Rightarrow>
             (case template_execute env [(''CSS'', markDownStyleGithubCSS)] t
                     (record_event ExecuteTemplate (record_event ParseTemplate st)) of
                (True, st') \<Rightarrow> add_defer DeferSuffix st'
              | (False, st') \<Rightarrow> panic PrefixWriteError st'))
      else st)"

text \<open>
  \<^verbatim>\<open>md.Convert(mdTxt, sink)\<close>: what the engine produces goes to the sink; the call fails
  when the engine or the write fails, and what was written stays.
\<close>

definition convert :: "env \<Rightarrow> state \<Rightarrow> state" where
  "convert env st =
     (case md_convert env md (mdTxt st) of
        (html, ok) \<Rightarrow>
          (case sink_write env html (record_event Convert st) of
             (wok, st') \<Rightarrow> if ok \<and> wok then st' else panic RenderError st'))"

definition main_body :: "string \<Rightarrow> env \<Rightarrow> flags \<Rightarrow> state" where
  "main_body tmpl env fl =
     next_stage
       (next_stage
          (next_stage (read_input env fl init_state) (select_sink env fl))
          (write_prefix tmpl env fl))
       (convert env)"

subsection \<open>Deferred functions and the end of the process\<close>

text \<open>
  A deferred function that calls \<^verbatim>\<open>recover()\<close> while a panic is in progress stops the
  panic: the functions deferred before it still run, and \<^verbatim>\<open>main\<close> returns normally.
  A deferred function that panics starts a panic; the remaining ones still run.
\<close>

fun run_deferred :: "env \<Rightarrow> deferred \<Rightarrow> state \<Rightarrow> state" where
  "run_deferred env DeferCloseInput st = record_event CloseInput st"
| "run_deferred env (DeferRemoveAll tmpDir) st =
     (if os_remove_all env tmpDir
      then (record_event (RemoveAll tmpDir) st)\<lparr>tmp_dir := None\<rparr>
      else report (RemoveFailed tmpDir) (record_event (RemoveAll tmpDir) st))"
| "run_deferred env DeferCloseOutput st = record_event CloseOutput st"
| "run_deferred env (DeferPreview tmpOut) st =
     (case panicking st of
        Some v \<Rightarrow> report SkipPreview (st\<lparr>panicking := None\<rparr>)
      | None \<Rightarrow>
          if open_cmd env tmpOut
          then record_event (SleepSeconds 1) (record_event (RunOpen tmpOut) st)
          else panic LaunchError (record_event (RunOpen tmpOut) st))"
| "run_deferred env DeferSuffix st =
     (case panicking st of
        Some v \<Rightarrow> st\<lparr>panicking := None\<rparr>
      | None \<Rightarrow>
          (case sink_write env htmlSuffix (record_event CopySuffix st) of
             (True, st') \<Rightarrow> st'
           | (False, st') \<Rightarrow> panic SuffixWriteError st'))"

definition run_defers :: "env \<Rightarrow> state \<Rightarrow> state" where
  "run_defers env st = fold (run_deferred env) (defers st) st"

text \<open>
  When \<^verbatim>\<open>main\<close> ends while panicking, the runtime prints the panic and the process
  exits with status 2; otherwise the status is 0.
\<close>

definition finish :: "state \<Rightarrow> state" where
  "finish st = (case panicking st of None \<Rightarrow> st | Some e \<Rightarrow> report (PanicMessage e) st)"

definition exit_status :: "state \<Rightarrow> nat" where
  "exit_status st = (case panicking st of None \<Rightarrow> 0 | Some e \<Rightarrow> 2)"

definition main_with :: "string \<Rightarrow> env \<Rightarrow> flags \<Rightarrow> state" where
  "main_with tmpl env fl = finish (run_defers env (main_body tmpl env fl))"

definition main :: "env \<Rightarrow> flags \<Rightarrow> state" where
  "main env fl = main_with htmlPrefixWithCSS env fl"

subsection \<open>Auxiliary notions for the statements\<close>

text \<open>
  \<open>fits env n\<close>: a sink that holds \<open>n\<close> bytes in all is within the limit. \<open>accepted env n bs\<close>:
  the part of \<open>bs\<close> a write stores in a sink that already holds \<open>n\<close> bytes. Both restate
  \<open>sink_write\<close> (lemma \<open>sink_write_eq\<close>).
\<close>

definition fits :: "env \<Rightarrow> nat \<Rightarrow> bool" where
  "fits env n = (case sink_limit env of None \<Rightarrow> True | Some lim \<Rightarrow> n \<le> lim)"

definition accepted :: "env \<Rightarrow> nat \<Rightarrow> bytes \<Rightarrow> bytes" where
  "accepted env n bs = (case sink_limit env of None \<Rightarrow> bs | Some lim \<Rightarrow> take (lim - n) bs)"

text \<open>The preamble: the prefix template with the style sheet in the place of \<^verbatim>\<open>{{.CSS}}\<close>.\<close>

definition htmlPreamble :: bytes where
  \<open>htmlPreamble =
     ''<html>\<newline><head>\<newline><style>\<newline>'' @ markDownStyleGithubCSS @
     ''\<newline></style>\<newline></head>\<newline><body>\<newline><article class="markdown-body">\<newline>''\<close>

text \<open>The nodes of the prefix template.\<close>

definition prefix_nodes :: "tnode list" where
  \<open>prefix_nodes =
     [TextNode ''<html>\<newline><head>\<newline><style>\<newline>'', FieldNode ''CSS'',
      TextNode ''\<newline></style>\<newline></head>\<newline><body>\<newline><article class="markdown-body">\<newline>'']\<close>

text \<open>Kinds of events: reading the input, writing to the sink, creating in the file system.\<close>

fun is_input_event :: "event \<Rightarrow> bool" where
  "is_input_event (OpenInput p) = True"
| "is_input_event ReadAll = True"
| "is_input_event e = False"

fun is_sink_write :: "event \<Rightarrow> bool" where
  "is_sink_write ExecuteTemplate = True"
| "is_sink_write Convert = True"
| "is_sink_write CopySuffix = True"
| "is_sink_write e = False"

fun is_create :: "event \<Rightarrow> bool" where
  "is_create MkdirTemp = True"
| "is_create (CreateFile p) = True"
| "is_create e = False"

text \<open>The events after the first attempt to launch the viewer.\<close>

fun after_launch :: "event list \<Rightarrow> event list" where
  "after_launch [] = []"
| "after_launch (RunOpen p # es) = es"
| "after_launch (e # es) = after_launch es"

text \<open>
  Removing the fixed preamble from the front and the fixed suffix from the end of an
  output; \<open>None\<close> when the output does not start with the one and end with the other.
\<close>

definition strip_wrapper :: "bytes \<Rightarrow> bytes option" where
  "strip_wrapper bs =
     (let n = length htmlPreamble; m = length htmlSuffix in
      if n + m \<le> length bs \<and> take n bs = htmlPreamble \<and> drop (length bs - m) bs = htmlSuffix
      then Some (take (length bs - n - m) (drop n bs))
      else None)"

subsection \<open>Example environments\<close>

text \<open>
  A run in which everything works: the input \<^verbatim>\<open># Hi\<close> on standard input and in the file
  \<^verbatim>\<open>doc.md\<close>, an engine that answers with a heading, a sink without limit. The other
  environments differ from it in one answer each.
\<close>

definition env_demo :: env where
  "env_demo =
     \<lparr>stdin_read = Some ''# Hi\<newline>'',
      os_open = (\<lambda>p. if p = ''doc.md'' then OpenOk (Some ''# Hi\<newline>'') else OpenFails),
      os_mkdir_temp = Some ''/tmp/rmd1'',
      os_create = (\<lambda>p. True),
      sink_limit = None,
      md_convert = (\<lambda>opts src. (''<h1>Hi</h1>\<newline>'', True)),
      open_cmd = (\<lambda>p. True),
      os_remove_all = (\<lambda>p. True)\<rparr>"

text \<open>The engine fails after it has written \<^verbatim>\<open><h1\<close>.\<close>

definition env_render_fails :: env where
  "env_render_fails = env_demo\<lparr>md_convert := (\<lambda>opts src. (''<h1'', False))\<rparr>"

text \<open>The command \<^verbatim>\<open>open\<close> fails.\<close>

definition env_launch_fails :: env where
  "env_launch_fails = env_demo\<lparr>open_cmd := (\<lambda>p. False)\<rparr>"

text \<open>\<^verbatim>\<open>os.RemoveAll\<close> fails.\<close>

definition env_remove_fails :: env where
  "env_remove_fails = env_demo\<lparr>os_remove_all := (\<lambda>p. False)\<rparr>"

text \<open>The directory is created, then neither the file can be created nor the directory removed.\<close>

definition env_create_fails :: env where
  "env_create_fails = env_demo\<lparr>os_create := (\<lambda>p. False), os_remove_all := (\<lambda>p. False)\<rparr>"

text \<open>\<^verbatim>\<open>os.MkdirTemp\<close> fails.\<close>

definition env_mkdir_fails :: env where
  "env_mkdir_fails = env_demo\<lparr>os_mkdir_temp := None\<rparr>"

text \<open>Standard input cannot be read.\<close>

definition env_read_fails :: env where
  "env_read_fails = env_demo\<lparr>stdin_read := None\<rparr>"

text \<open>The file can be opened but not read.\<close>

definition env_file_read_fails :: env where
  "env_file_read_fails = env_demo\<lparr>os_open := (\<lambda>p. OpenOk None)\<rparr>"

text \<open>A prefix template with an action that is not closed.\<close>

definition unclosed_template :: string where
  \<open>unclosed_template = ''<html><style>{{.CSS''\<close>

section \<open>Properties\<close>

subsection \<open>The sink and the template\<close>

lemma sink_write_eq:
  "sink_write env bs st =
     (fits env (length (written st) + length bs),
      st\<lparr>written := written st @ accepted env (length (written st)) bs\<rparr>)"
  by (simp add: sink_write_def fits_def accepted_def split: option.splits)

lemma fits_mono: "fits env n \<Longrightarrow> m \<le> n \<Longrightarrow> fits env m"
  by (simp add: fits_def split: option.splits)

lemma accepted_fits: "fits env (n + length bs) \<Longrightarrow> accepted env n bs = bs"
  by (simp add: fits_def accepted_def split: option.splits)

lemma accepted_append:
  "fits env (n + length as) \<Longrightarrow> as @ accepted env (n + length as) bs = accepted env n (as @ bs)"
  by (auto simp: fits_def accepted_def split: option.splits)

lemma accepted_append_short:
  "\<not> fits env (n + length as) \<Longrightarrow> accepted env n as = accepted env n (as @ bs)"
  by (auto simp: fits_def accepted_def split: option.splits)

lemma parse_prefix: "template_parse htmlPrefixWithCSS = Some prefix_nodes"
  by (simp add: template_parse_def htmlPrefixWithCSS_def prefix_nodes_def is_alnum_def text_node_def)

lemma execute_three:
  "template_execute env [(k, c)] [TextNode a, FieldNode k, TextNode b] st =
     (fits env (length (written st) + length (a @ c @ b)),
      st\<lparr>written := written st @ accepted env (length (written st)) (a @ c @ b)\<rparr>)"
proof -
  let ?n = "length (written st)"
  show ?thesis
  proof (cases "fits env (?n + length a)")
    case False
    then have "\<not> fits env (?n + length (a @ c @ b))"
      using fits_mono[of env "?n + length (a @ c @ b)" "?n + length a"] by auto
    moreover have "accepted env ?n a = accepted env ?n (a @ c @ b)"
      using False by (rule accepted_append_short)
    ultimately show ?thesis using False
      by (simp add: sink_write_eq add.assoc split: bool.splits)
  next
    case a: True
    show ?thesis
    proof (cases "fits env (?n + length a + length c)")
      case False
      then have "\<not> fits env (?n + length (a @ c @ b))"
        using fits_mono[of env "?n + length (a @ c @ b)" "?n + length a + length c"] by auto
      moreover have "a @ accepted env (?n + length a) c = accepted env ?n (a @ c @ b)"
      proof -
        have "accepted env (?n + length a) c = accepted env (?n + length a) (c @ b)"
          using False by (intro accepted_append_short) (simp add: add.assoc)
        then have "a @ accepted env (?n + length a) c = a @ accepted env (?n + length a) (c @ b)"
          by simp
        also have "\<dots> = accepted env ?n (a @ c @ b)" using a by (rule accepted_append)
        finally show ?thesis .
      qed
      ultimately show ?thesis using a False
        by (simp add: sink_write_eq accepted_fits add.assoc split: bool.splits)
    next
      case c: True
      have "a @ c @ accepted env (?n + length a + length c) b = accepted env ?n (a @ c @ b)"
      proof -
        have "c @ accepted env (?n + length a + length c) b = accepted env (?n + length a) (c @ b)"
          using c by (rule accepted_append)
        then have "a @ c @ accepted env (?n + length a + length c) b = a @ accepted env (?n + length a) (c @ b)"
          by simp
        also have "\<dots> = accepted env ?n (a @ c @ b)" using a by (rule accepted_append)
        finally show ?thesis .
      qed
      moreover have "fits env (?n + length a + length c + length b) = fits env (?n + length (a @ c @ b))"
        by (simp add: add.assoc)
      ultimately show ?thesis using a c
        by (simp add: sink_write_eq accepted_fits add.assoc split: bool.splits)
    qed
  qed
qed

lemma execute_prefix:
  "template_execute env [(''CSS'', markDownStyleGithubCSS)] prefix_nodes st =
     (fits env (length (written st) + length htmlPreamble),
      st\<lparr>written := written st @ accepted env (length (written st)) htmlPreamble\<rparr>)"
  unfolding prefix_nodes_def htmlPreamble_def by (rule execute_three)

subsection \<open>Stages as state updates\<close>

lemma read_input_stdin:
  "inPath fl = [] \<or> inPath fl = ''-'' \<Longrightarrow> read_input env fl st = read_all (stdin_read env) st"
  by (auto simp: read_input_def)

lemma read_input_style: "read_input env (fl\<lparr>style := b\<rparr>) st = read_input env fl st"
  by (simp add: read_input_def)

lemma read_input_fields:
  "written (read_input env fl init_state) = []"
  "tmp_dir (read_input env fl init_state) = None"
  "stderr (read_input env fl init_state) = []"
  "sink (read_input env fl init_state) = Stdout"
  "set (defers (read_input env fl init_state)) \<subseteq> {DeferCloseInput}"
  "\<forall>e\<in>set (trace (read_input env fl init_state)). is_input_event e"
  by (simp_all add: read_input_def read_all_def panic_def record_event_def add_defer_def
        init_state_def Let_def split: open_result.splits option.splits)

lemma read_input_ok:
  "panicking (read_input env fl init_state) = None \<Longrightarrow> raised (read_input env fl init_state) = []"
  by (simp add: read_input_def read_all_def panic_def record_event_def add_defer_def
        init_state_def Let_def split: open_result.splits option.splits if_splits)

lemma read_input_panic_raised:
  "panicking (read_input env fl init_state) \<noteq> None \<Longrightarrow> raised (read_input env fl init_state) \<noteq> []"
  by (simp add: read_input_def read_all_def panic_def record_event_def add_defer_def
        init_state_def Let_def split: open_result.splits option.splits if_splits)

lemma select_sink_stdout: "\<not> previewOnly fl \<Longrightarrow> select_sink env fl s = s"
  by (simp add: select_sink_def)

lemma select_sink_no_dir:
  "previewOnly fl \<Longrightarrow> os_mkdir_temp env = None \<Longrightarrow>
     select_sink env fl s =
       s\<lparr>panicking := Some TempDirError, raised := raised s @ [TempDirError],
         trace := trace s @ [MkdirTemp]\<rparr>"
  by (simp add: select_sink_def panic_def record_event_def)

lemma select_sink_no_file:
  "previewOnly fl \<Longrightarrow> os_mkdir_temp env = Some d \<Longrightarrow> \<not> os_create env (path_join d ''out.html'') \<Longrightarrow>
     select_sink env fl s =
       s\<lparr>tmp_dir := Some (d, []), defers := DeferRemoveAll d # defers s,
         panicking := Some TempFileError, raised := raised s @ [TempFileError],
         trace := trace s @ [MkdirTemp, CreateFile (path_join d ''out.html'')]\<rparr>"
  by (simp add: select_sink_def panic_def record_event_def add_defer_def Let_def)

lemma select_sink_file:
  "previewOnly fl \<Longrightarrow> os_mkdir_temp env = Some d \<Longrightarrow> os_create env (path_join d ''out.html'') \<Longrightarrow>
     select_sink env fl s =
       s\<lparr>sink := TmpFile (path_join d ''out.html''), tmp_dir := Some (d, [''out.html'']),
         defers := DeferPreview (path_join d ''out.html'') # DeferCloseOutput #
                   DeferRemoveAll d # defers s,
         trace := trace s @ [MkdirTemp, CreateFile (path_join d ''out.html'')]\<rparr>"
  by (simp add: select_sink_def panic_def record_event_def add_defer_def Let_def)

lemma select_sink_panicking:
  assumes "panicking s = None" "panicking (select_sink env fl s) = None"
  shows "\<not> previewOnly fl \<or>
         (\<exists>d. os_mkdir_temp env = Some d \<and> os_create env (path_join d ''out.html''))"
  using assms
  by (simp add: select_sink_def Let_def record_event_def panic_def add_defer_def
        split: if_splits option.splits)

lemma write_prefix_eq:
  "write_prefix htmlPrefixWithCSS env fl st =
     (if style fl then
        (if fits env (length (written st) + length htmlPreamble)
         then st\<lparr>written := written st @ htmlPreamble,
                 defers := DeferSuffix # defers st,
                 trace := trace st @ [ParseTemplate, ExecuteTemplate]\<rparr>
         else st\<lparr>written := written st @ accepted env (length (written st)) htmlPreamble,
                 panicking := Some PrefixWriteError,
                 raised := raised st @ [PrefixWriteError],
                 trace := trace st @ [ParseTemplate, ExecuteTemplate]\<rparr>)
      else st)"
  by (simp add: write_prefix_def parse_prefix execute_prefix record_event_def add_defer_def
        panic_def accepted_fits)

lemma write_prefix_off: "\<not> style fl \<Longrightarrow> write_prefix tmpl env fl st = st"
  by (simp add: write_prefix_def)

lemma write_prefix_parse_fails:
  "style fl \<Longrightarrow> template_parse tmpl = None \<Longrightarrow>
     write_prefix tmpl env fl st =
       st\<lparr>panicking := Some TemplateError, raised := raised st @ [TemplateError],
          trace := trace st @ [ParseTemplate]\<rparr>"
  by (simp add: write_prefix_def panic_def record_event_def)

lemma convert_eq:
  "convert env st =
     (if snd (md_convert env md (mdTxt st)) \<and>
         fits env (length (written st) + length (fst (md_convert env md (mdTxt st))))
      then st\<lparr>written := written st @ fst (md_convert env md (mdTxt st)),
              trace := trace st @ [Convert]\<rparr>
      else st\<lparr>written := written st @
                accepted env (length (written st)) (fst (md_convert env md (mdTxt st))),
              panicking := Some RenderError,
              raised := raised st @ [RenderError],
              trace := trace st @ [Convert]\<rparr>)"
  by (simp add: convert_def sink_write_eq record_event_def panic_def accepted_fits split_beta)

lemma run_deferred_suffix:
  "run_deferred env DeferSuffix st =
     (case panicking st of
        Some v \<Rightarrow> st\<lparr>panicking := None\<rparr>
      | None \<Rightarrow>
          if fits env (length (written st) + length htmlSuffix)
          then st\<lparr>written := written st @ htmlSuffix, trace := trace st @ [CopySuffix]\<rparr>
          else st\<lparr>written := written st @ accepted env (length (written st)) htmlSuffix,
                  panicking := Some SuffixWriteError,
                  raised := raised st @ [SuffixWriteError],
                  trace := trace st @ [CopySuffix]\<rparr>)"
  by (simp add: sink_write_eq record_event_def panic_def accepted_fits split: option.splits)

declare run_deferred.simps [simp del]

lemmas run_deferred_eq =
  run_deferred.simps(1-4) run_deferred_suffix record_event_def report_def panic_def

lemma run_deferred_fields [simp]:
  "mdTxt (run_deferred env d st) = mdTxt st"
  "sink (run_deferred env d st) = sink st"
  "defers (run_deferred env d st) = defers st"
  by (cases d; simp add: run_deferred_eq split: option.splits)+

lemma finish_fields [simp]:
  "mdTxt (finish st) = mdTxt st"
  "sink (finish st) = sink st"
  "written (finish st) = written st"
  "tmp_dir (finish st) = tmp_dir st"
  "defers (finish st) = defers st"
  "panicking (finish st) = panicking st"
  "raised (finish st) = raised st"
  "trace (finish st) = trace st"
  "exit_status (finish st) = exit_status st"
  by (simp_all add: finish_def report_def exit_status_def split: option.splits)

lemma next_stage_run: "panicking st = None \<Longrightarrow> next_stage st f = f st"
  by (simp add: next_stage_def)

lemma next_stage_skip: "panicking st = Some e \<Longrightarrow> next_stage st f = st"
  by (simp add: next_stage_def)

text \<open>The facts that evaluate a run in one of the example environments.\<close>

lemmas eval_defs =
  main_def main_with_def main_body_def next_stage_def read_input_def read_all_def
  select_sink_def write_prefix_def convert_def run_defers_def finish_def exit_status_def
  panic_def add_defer_def record_event_def report_def init_state_def path_join_def
  parse_prefix execute_prefix sink_write_eq fits_def accepted_def Let_def
  env_demo_def env_render_fails_def env_launch_fails_def env_remove_fails_def
  env_create_fails_def env_mkdir_fails_def env_read_fails_def env_file_read_fails_def
  run_deferred.simps

subsection \<open>Traces\<close>

lemma trace_write_prefix:
  "trace (write_prefix htmlPrefixWithCSS env fl st) =
     trace st @ (if style fl then [ParseTemplate, ExecuteTemplate] else [])"
  by (simp add: write_prefix_eq)

lemma trace_convert: "trace (convert env st) = trace st @ [Convert]"
  by (simp add: convert_eq)

lemma trace_run_deferred:
  "trace (run_deferred env d st) = trace st @
     (case d of
        DeferCloseInput \<Rightarrow> [CloseInput]
      | DeferRemoveAll tmpDir \<Rightarrow> [RemoveAll tmpDir]
      | DeferCloseOutput \<Rightarrow> [CloseOutput]
      | DeferPreview tmpOut \<Rightarrow>
          (if panicking st = None
           then RunOpen tmpOut # (if open_cmd env tmpOut then [SleepSeconds 1] else [])
           else [])
      | DeferSuffix \<Rightarrow> (if panicking st = None then [CopySuffix] else []))"
  by (cases d) (auto simp: run_deferred_eq split: option.splits)

lemma input_event_kinds:
  "is_input_event e \<Longrightarrow> \<not> is_create e \<and> \<not> is_sink_write e"
  by (cases e) simp_all

lemma input_trace_filters:
  "filter is_create (trace (read_input env fl init_state)) = []"
  "filter is_sink_write (trace (read_input env fl init_state)) = []"
  using read_input_fields(6)[of env fl] by (auto simp: filter_empty_conv dest: input_event_kinds)

lemma run_deferred_input_events [simp]:
  "filter is_input_event (trace (run_deferred env d st)) = filter is_input_event (trace st)"
  by (cases d; simp add: run_deferred_eq split: option.splits)

lemma stage_input_events [simp]:
  "filter is_input_event (trace (select_sink env fl st)) = filter is_input_event (trace st)"
  "filter is_input_event (trace (write_prefix htmlPrefixWithCSS env fl st)) = filter is_input_event (trace st)"
  "filter is_input_event (trace (convert env st)) = filter is_input_event (trace st)"
  by (simp_all add: select_sink_def write_prefix_eq convert_eq record_event_def add_defer_def
        panic_def Let_def split: option.splits)

lemma stage_mdTxt [simp]:
  "mdTxt (select_sink env fl st) = mdTxt st"
  "mdTxt (write_prefix htmlPrefixWithCSS env fl st) = mdTxt st"
  "mdTxt (convert env st) = mdTxt st"
  by (simp_all add: select_sink_def write_prefix_eq convert_eq record_event_def add_defer_def
        panic_def Let_def split: option.splits)

lemma stage_create_events [simp]:
  "filter is_create (trace (write_prefix htmlPrefixWithCSS env fl st)) = filter is_create (trace st)"
  "filter is_create (trace (convert env st)) = filter is_create (trace st)"
  "filter is_create (trace (run_deferred env d st)) = filter is_create (trace st)"
  by (simp_all add: trace_write_prefix trace_convert trace_run_deferred split: deferred.splits)

lemma select_sink_no_parse_event:
  "ParseTemplate \<in> set (trace (select_sink env fl s)) \<Longrightarrow> ParseTemplate \<in> set (trace s)"
  by (simp add: select_sink_def Let_def record_event_def panic_def add_defer_def
        split: if_splits option.splits)

lemma after_launch_skip:
  "\<forall>e\<in>set pre. \<forall>q. e \<noteq> RunOpen q \<Longrightarrow> after_launch (pre @ ys) = after_launch ys"
proof (induction pre)
  case Nil
  then show ?case by simp
next
  case (Cons a pre)
  then show ?case by (cases a) simp_all
qed

lemma removeAll_replicate_same: "removeAll x (replicate n x) = []"
  by (induction n) simp_all

subsection \<open>Rules for the stages\<close>

lemma next_stage_rule:
  "(panicking st = None \<Longrightarrow> Q (f st)) \<Longrightarrow> (panicking st \<noteq> None \<Longrightarrow> Q st) \<Longrightarrow> Q (next_stage st f)"
  by (simp add: next_stage_def)

lemma body_rule:
  assumes "I1 (read_input env fl init_state)"
    and "\<And>s. I1 s \<Longrightarrow> panicking s = None \<Longrightarrow> I2 (select_sink env fl s)"
    and "\<And>s. I1 s \<Longrightarrow> panicking s \<noteq> None \<Longrightarrow> I2 s"
    and "\<And>s. I2 s \<Longrightarrow> panicking s = None \<Longrightarrow> I3 (write_prefix tmpl env fl s)"
    and "\<And>s. I2 s \<Longrightarrow> panicking s \<noteq> None \<Longrightarrow> I3 s"
    and "\<And>s. I3 s \<Longrightarrow> panicking s = None \<Longrightarrow> I4 (convert env s)"
    and "\<And>s. I3 s \<Longrightarrow> panicking s \<noteq> None \<Longrightarrow> I4 s"
  shows "I4 (main_body tmpl env fl)"
proof -
  let ?s1 = "read_input env fl init_state"
  let ?s2 = "next_stage ?s1 (select_sink env fl)"
  let ?s3 = "next_stage ?s2 (write_prefix tmpl env fl)"
  have 2: "I2 ?s2" by (rule next_stage_rule) (auto intro: assms)
  have 3: "I3 ?s3" by (rule next_stage_rule) (auto intro: assms 2)
  show ?thesis unfolding main_body_def by (rule next_stage_rule) (auto intro: assms 3)
qed

lemma fold_rule:
  "P st \<Longrightarrow> (\<And>d s. d \<in> set ds \<Longrightarrow> P s \<Longrightarrow> P (run_deferred env d s)) \<Longrightarrow>
     P (fold (run_deferred env) ds st)"
  by (induction ds arbitrary: st) auto

lemma main_invariant:
  assumes "P (read_input env fl init_state)"
    and "\<And>s. P s \<Longrightarrow> P (select_sink env fl s)"
    and "\<And>s. P s \<Longrightarrow> P (write_prefix tmpl env fl s)"
    and "\<And>s. P s \<Longrightarrow> P (convert env s)"
    and "\<And>d s. P s \<Longrightarrow> P (run_deferred env d s)"
    and "\<And>s. P s \<Longrightarrow> P (finish s)"
  shows "P (main_with tmpl env fl)"
proof -
  have "P (main_body tmpl env fl)"
    by (rule body_rule[where ?I1.0 = P and ?I2.0 = P and ?I3.0 = P]) (auto intro: assms)
  then have "P (run_defers env (main_body tmpl env fl))"
    unfolding run_defers_def by (rule fold_rule) (auto intro: assms)
  then show ?thesis unfolding main_with_def by (rule assms)
qed

lemma after_sink_rule:
  assumes "P s2"
    and "\<And>s. P s \<Longrightarrow> P (write_prefix tmpl env fl s)"
    and "\<And>s. P s \<Longrightarrow> P (convert env s)"
    and "\<And>d s. P s \<Longrightarrow> P (run_deferred env d s)"
    and "\<And>s. P s \<Longrightarrow> P (finish s)"
  shows "P (finish (run_defers env (next_stage (next_stage s2 (write_prefix tmpl env fl)) (convert env))))"
proof -
  have 3: "P (next_stage s2 (write_prefix tmpl env fl))"
    using assms(1,2) by (simp add: next_stage_def)
  have 4: "P (next_stage (next_stage s2 (write_prefix tmpl env fl)) (convert env))"
    using 3 assms(3) by (simp add: next_stage_def)
  have "P (run_defers env (next_stage (next_stage s2 (write_prefix tmpl env fl)) (convert env)))"
    unfolding run_defers_def using 4 assms(4) by (rule fold_rule)
  then show ?thesis by (rule assms(5))
qed

lemma fold_close_input:
  "set ds \<subseteq> {DeferCloseInput} \<Longrightarrow>
     fold (run_deferred env) ds st = st\<lparr>trace := trace st @ replicate (length ds) CloseInput\<rparr>"
proof (induction ds arbitrary: st)
  case Nil
  then show ?case by simp
next
  case (Cons d ds)
  then have d: "d = DeferCloseInput" by simp
  from Cons have "set ds \<subseteq> {DeferCloseInput}" by simp
  from Cons.IH[OF this] show ?case
    by (simp add: d run_deferred_eq replicate_app_Cons_same)
qed

lemma raised_grows_deferred: "raised s \<noteq> [] \<Longrightarrow> raised (run_deferred env d s) \<noteq> []"
  by (cases d) (simp_all add: run_deferred_eq split: option.splits)

lemma raised_grows_defers: "raised s \<noteq> [] \<Longrightarrow> raised (finish (fold (run_deferred env) ds s)) \<noteq> []"
proof -
  assume "raised s \<noteq> []"
  then have "raised (fold (run_deferred env) ds s) \<noteq> []"
    by (rule fold_rule[where P = "\<lambda>s. raised s \<noteq> []"]) (rule raised_grows_deferred)
  then show ?thesis by simp
qed

lemma no_parse_event_after:
  assumes "ParseTemplate \<notin> set (trace B)"
  shows "ParseTemplate \<notin> set (trace (finish (run_defers env B)))"
proof -
  have "ParseTemplate \<notin> set (trace (fold (run_deferred env) (defers B) B))"
    using assms
    by (rule fold_rule[where P = "\<lambda>s. ParseTemplate \<notin> set (trace s)"])
       (simp add: trace_run_deferred split: deferred.splits)
  then show ?thesis by (simp add: run_defers_def)
qed

subsection \<open>Runs, stage by stage\<close>

text \<open>A run whose input cannot be read ends there: only the input file is closed.\<close>

lemma input_failed:
  assumes "panicking (read_input env fl init_state) \<noteq> None"
  shows "main_with tmpl env fl =
     finish ((read_input env fl init_state)
       \<lparr>trace := trace (read_input env fl init_state) @
          replicate (length (defers (read_input env fl init_state))) CloseInput\<rparr>)"
proof -
  from assms obtain e where e: "panicking (read_input env fl init_state) = Some e" by auto
  have "main_body tmpl env fl = read_input env fl init_state"
    by (simp add: main_body_def next_stage_skip[OF e])
  then show ?thesis
    using read_input_fields(5)[of env fl]
    by (simp add: main_with_def run_defers_def fold_close_input)
qed

text \<open>The rest of \<open>main\<close> once the input is read.\<close>

lemma input_read:
  assumes "panicking (read_input env fl init_state) = None"
  shows "main_with tmpl env fl =
     finish (run_defers env
       (next_stage (next_stage (select_sink env fl (read_input env fl init_state))
          (write_prefix tmpl env fl)) (convert env)))"
  by (simp add: main_with_def main_body_def next_stage_run[OF assms])

text \<open>
  Whatever the prefix and the conversion do, the deferred functions registered up to the
  sink selection run afterwards, from a state \<open>S\<close> that differs from the state after the
  sink selection in the sink's content, the panic and the trace only.
\<close>

lemma rest_of_run:
  "\<exists>S es. run_defers env (next_stage (next_stage s2 (write_prefix htmlPrefixWithCSS env fl)) (convert env)) =
            fold (run_deferred env) (defers s2) S \<and>
          mdTxt S = mdTxt s2 \<and> sink S = sink s2 \<and> tmp_dir S = tmp_dir s2 \<and>
          stderr S = stderr s2 \<and> trace S = trace s2 @ es \<and>
          set es \<subseteq> {ParseTemplate, ExecuteTemplate, Convert, CopySuffix}"
    (is "\<exists>S es. ?R S es")
proof (cases "panicking s2")
  case (Some e)
  have "?R s2 []"
    by (simp add: next_stage_skip[OF Some] run_defers_def)
  then show ?thesis by blast
next
  case None
  let ?s3 = "write_prefix htmlPrefixWithCSS env fl s2"
  have n2: "next_stage s2 (write_prefix htmlPrefixWithCSS env fl) = ?s3"
    by (rule next_stage_run[OF None])
  show ?thesis
  proof (cases "style fl")
    case False
    then have s3: "?s3 = s2" by (simp add: write_prefix_eq)
    have "?R (convert env s2) [Convert]"
      by (simp add: n2 s3 next_stage_run[OF None] run_defers_def convert_eq)
    then show ?thesis by blast
  next
    case True
    show ?thesis
    proof (cases "fits env (length (written s2) + length htmlPreamble)")
      case False
      let ?t = "s2\<lparr>written := written s2 @ accepted env (length (written s2)) htmlPreamble,
                 panicking := Some PrefixWriteError,
                 raised := raised s2 @ [PrefixWriteError],
                 trace := trace s2 @ [ParseTemplate, ExecuteTemplate]\<rparr>"
      from True False have s3: "?s3 = ?t" by (simp add: write_prefix_eq)
      have p: "panicking ?t = Some PrefixWriteError" by simp
      have "?R ?t [ParseTemplate, ExecuteTemplate]"
        unfolding n2 s3 next_stage_skip[OF p] by (simp add: run_defers_def)
      then show ?thesis by blast
    next
      case fit: True
      let ?t = "s2\<lparr>written := written s2 @ htmlPreamble,
                 defers := DeferSuffix # defers s2,
                 trace := trace s2 @ [ParseTemplate, ExecuteTemplate]\<rparr>"
      from True fit have s3: "?s3 = ?t" by (simp add: write_prefix_eq)
      have p: "panicking ?t = None" using None by simp
      let ?B = "convert env ?t"
      have d: "defers ?B = DeferSuffix # defers s2" by (simp add: convert_eq)
      have "?R (run_deferred env DeferSuffix ?B)
              ([ParseTemplate, ExecuteTemplate, Convert] @
               (if panicking ?B = None then [CopySuffix] else []))"
        unfolding n2 s3 next_stage_run[OF p] run_defers_def d
        by (simp add: trace_run_deferred)
           (simp add: convert_eq run_deferred_suffix split: option.splits)
      then show ?thesis by blast
    qed
  qed
qed

lemma run_stdout:
  assumes ok: "panicking (read_input env fl init_state) = None" and "\<not> previewOnly fl"
  shows "\<exists>S es. main env fl =
            finish (S\<lparr>trace := trace S @
               replicate (length (defers (read_input env fl init_state))) CloseInput\<rparr>) \<and>
          mdTxt S = mdTxt (read_input env fl init_state) \<and> sink S = Stdout \<and>
          tmp_dir S = None \<and> stderr S = [] \<and>
          trace S = trace (read_input env fl init_state) @ es \<and>
          set es \<subseteq> {ParseTemplate, ExecuteTemplate, Convert, CopySuffix}"
proof -
  let ?s1 = "read_input env fl init_state"
  have s2: "select_sink env fl ?s1 = ?s1" by (rule select_sink_stdout) fact
  have c: "set (defers ?s1) \<subseteq> {DeferCloseInput}" by (rule read_input_fields)
  from rest_of_run[of env ?s1 fl] obtain S es where
    r: "run_defers env (next_stage (next_stage ?s1 (write_prefix htmlPrefixWithCSS env fl)) (convert env)) =
          fold (run_deferred env) (defers ?s1) S"
    and f: "mdTxt S = mdTxt ?s1" "sink S = sink ?s1" "tmp_dir S = tmp_dir ?s1"
      "stderr S = stderr ?s1" "trace S = trace ?s1 @ es"
      "set es \<subseteq> {ParseTemplate, ExecuteTemplate, Convert, CopySuffix}"
    by blast
  have "main env fl = finish (S\<lparr>trace := trace S @ replicate (length (defers ?s1)) CloseInput\<rparr>)"
    unfolding main_def input_read[OF ok] s2 r by (simp add: fold_close_input[OF c])
  with f show ?thesis
    by (intro exI[of _ S] exI[of _ es]) (simp add: read_input_fields)
qed

lemma run_no_dir:
  assumes ok: "panicking (read_input env fl init_state) = None"
    and "previewOnly fl" "os_mkdir_temp env = None"
  shows "main env fl =
     finish ((read_input env fl init_state)
       \<lparr>panicking := Some TempDirError, raised := [TempDirError],
        trace := trace (read_input env fl init_state) @ MkdirTemp #
          replicate (length (defers (read_input env fl init_state))) CloseInput\<rparr>)"
proof -
  let ?s1 = "read_input env fl init_state"
  let ?s2 = "?s1\<lparr>panicking := Some TempDirError, raised := raised ?s1 @ [TempDirError],
                 trace := trace ?s1 @ [MkdirTemp]\<rparr>"
  have s2: "select_sink env fl ?s1 = ?s2" by (rule select_sink_no_dir) fact+
  have p: "panicking ?s2 = Some TempDirError" by simp
  have b: "next_stage (next_stage ?s2 f) g = ?s2" for f g
    by (simp only: next_stage_skip[OF p])
  show ?thesis
    unfolding main_def input_read[OF ok] s2 b run_defers_def
    using read_input_fields(5)[of env fl] read_input_ok[OF ok]
    by (simp add: fold_close_input)
qed

lemma run_no_file:
  assumes ok: "panicking (read_input env fl init_state) = None"
    and "previewOnly fl" "os_mkdir_temp env = Some d" "\<not> os_create env (path_join d ''out.html'')"
  shows "main env fl =
     finish (run_deferred env (DeferRemoveAll d) ((read_input env fl init_state)
       \<lparr>tmp_dir := Some (d, []), defers := DeferRemoveAll d # defers (read_input env fl init_state),
        panicking := Some TempFileError, raised := [TempFileError],
        trace := trace (read_input env fl init_state) @
          [MkdirTemp, CreateFile (path_join d ''out.html'')]\<rparr>)
       \<lparr>trace := trace (read_input env fl init_state) @
          [MkdirTemp, CreateFile (path_join d ''out.html''), RemoveAll d] @
          replicate (length (defers (read_input env fl init_state))) CloseInput\<rparr>)"
proof -
  let ?s1 = "read_input env fl init_state"
  let ?s2 = "?s1\<lparr>tmp_dir := Some (d, []), defers := DeferRemoveAll d # defers ?s1,
         panicking := Some TempFileError, raised := raised ?s1 @ [TempFileError],
         trace := trace ?s1 @ [MkdirTemp, CreateFile (path_join d ''out.html'')]\<rparr>"
  have s2: "select_sink env fl ?s1 = ?s2" by (rule select_sink_no_file) fact+
  have p: "panicking ?s2 = Some TempFileError" by simp
  have b: "next_stage (next_stage ?s2 f) g = ?s2" for f g
    by (simp only: next_stage_skip[OF p])
  have c: "set (defers ?s1) \<subseteq> {DeferCloseInput}" by (rule read_input_fields)
  show ?thesis
    unfolding main_def input_read[OF ok] s2 b run_defers_def
    using read_input_ok[OF ok]
    by (simp add: fold_close_input[OF c] run_deferred_eq)
qed

lemma run_file:
  assumes ok: "panicking (read_input env fl init_state) = None"
    and "previewOnly fl" "os_mkdir_temp env = Some d" "os_create env (path_join d ''out.html'')"
  shows "\<exists>S es. main env fl =
            finish ((run_deferred env (DeferRemoveAll d)
               (run_deferred env DeferCloseOutput
                  (run_deferred env (DeferPreview (path_join d ''out.html'')) S)))
              \<lparr>trace := trace (run_deferred env (DeferPreview (path_join d ''out.html'')) S) @
                 [CloseOutput, RemoveAll d] @
                 replicate (length (defers (read_input env fl init_state))) CloseInput\<rparr>) \<and>
          mdTxt S = mdTxt (read_input env fl init_state) \<and>
          sink S = TmpFile (path_join d ''out.html'') \<and>
          tmp_dir S = Some (d, [''out.html'']) \<and> stderr S = [] \<and>
          trace S = trace (read_input env fl init_state) @
            [MkdirTemp, CreateFile (path_join d ''out.html'')] @ es \<and>
          set es \<subseteq> {ParseTemplate, ExecuteTemplate, Convert, CopySuffix}"
proof -
  let ?s1 = "read_input env fl init_state"
  let ?out = "path_join d ''out.html''"
  let ?s2 = "?s1\<lparr>sink := TmpFile ?out, tmp_dir := Some (d, [''out.html'']),
         defers := DeferPreview ?out # DeferCloseOutput # DeferRemoveAll d # defers ?s1,
         trace := trace ?s1 @ [MkdirTemp, CreateFile ?out]\<rparr>"
  have s2: "select_sink env fl ?s1 = ?s2" by (rule select_sink_file) fact+
  have c: "set (defers ?s1) \<subseteq> {DeferCloseInput}" by (rule read_input_fields)
  from rest_of_run[of env ?s2 fl] obtain S es where
    r: "run_defers env (next_stage (next_stage ?s2 (write_prefix htmlPrefixWithCSS env fl)) (convert env)) =
          fold (run_deferred env) (defers ?s2) S"
    and f: "mdTxt S = mdTxt ?s2" "sink S = sink ?s2" "tmp_dir S = tmp_dir ?s2"
      "stderr S = stderr ?s2" "trace S = trace ?s2 @ es"
      "set es \<subseteq> {ParseTemplate, ExecuteTemplate, Convert, CopySuffix}"
    by blast
  have "main env fl =
     finish ((run_deferred env (DeferRemoveAll d)
        (run_deferred env DeferCloseOutput (run_deferred env (DeferPreview ?out) S)))
       \<lparr>trace := trace (run_deferred env (DeferPreview ?out) S) @
          [CloseOutput, RemoveAll d] @ replicate (length (defers ?s1)) CloseInput\<rparr>)"
    unfolding main_def input_read[OF ok] s2 r
    by (simp add: fold_close_input[OF c] trace_run_deferred)
  with f show ?thesis
    by (intro exI[of _ S] exI[of _ es]) (simp add: read_input_fields)
qed

lemma no_dir_fields:
  assumes "panicking (read_input env fl init_state) = None" "previewOnly fl" "os_mkdir_temp env = None"
  shows "raised (main env fl) = [TempDirError]" "exit_status (main env fl) = 2"
    "tmp_dir (main env fl) = None" "written (main env fl) = []"
    "filter is_sink_write (trace (main env fl)) = []"
    "trace (main env fl) = trace (read_input env fl init_state) @ MkdirTemp #
        replicate (length (defers (read_input env fl init_state))) CloseInput"
  by (simp_all add: run_no_dir[OF assms] read_input_fields input_trace_filters exit_status_def)

lemma no_file_fields:
  assumes "panicking (read_input env fl init_state) = None" "previewOnly fl"
    "os_mkdir_temp env = Some d" "\<not> os_create env (path_join d ''out.html'')"
  shows "raised (main env fl) = [TempFileError]" "exit_status (main env fl) = 2"
    "written (main env fl) = []" "filter is_sink_write (trace (main env fl)) = []"
    "trace (main env fl) = trace (read_input env fl init_state) @
        [MkdirTemp, CreateFile (path_join d ''out.html''), RemoveAll d] @
        replicate (length (defers (read_input env fl init_state))) CloseInput"
    "tmp_dir (main env fl) = (if os_remove_all env d then None else Some (d, []))"
    "\<not> os_remove_all env d \<Longrightarrow> RemoveFailed d \<in> set (stderr (main env fl))"
  by (simp_all add: run_no_file[OF assms] read_input_fields input_trace_filters exit_status_def
        run_deferred_eq finish_def split: option.splits)

lemma file_fields:
  assumes "panicking (read_input env fl init_state) = None" "previewOnly fl"
    "os_mkdir_temp env = Some d" "os_create env (path_join d ''out.html'')"
  shows "sink (main env fl) = TmpFile (path_join d ''out.html'')"
    and "tmp_dir (main env fl) = (if os_remove_all env d then None else Some (d, [''out.html'']))"
    and "\<not> os_remove_all env d \<Longrightarrow> RemoveFailed d \<in> set (stderr (main env fl))"
    and "\<exists>pre L. trace (main env fl) =
            pre @ L @ [CloseOutput, RemoveAll d] @
              replicate (length (defers (read_input env fl init_state))) CloseInput \<and>
          (\<forall>e\<in>set pre. (\<forall>q. e \<noteq> RunOpen q) \<and> (\<forall>k. e \<noteq> SleepSeconds k) \<and>
              (\<forall>x. e \<noteq> RemoveAll x) \<and> e \<noteq> CloseInput) \<and>
          (L = [] \<or>
           L = [RunOpen (path_join d ''out.html''), SleepSeconds 1] \<and>
             open_cmd env (path_join d ''out.html'') \<or>
           L = [RunOpen (path_join d ''out.html'')] \<and> \<not> open_cmd env (path_join d ''out.html'') \<and>
             last (raised (main env fl)) = LaunchError \<and> exit_status (main env fl) = 2)"
proof -
  let ?s1 = "read_input env fl init_state"
  let ?out = "path_join d ''out.html''"
  let ?n = "length (defers ?s1)"
  from run_file[OF assms] obtain S es where
    m: "main env fl =
            finish ((run_deferred env (DeferRemoveAll d)
               (run_deferred env DeferCloseOutput (run_deferred env (DeferPreview ?out) S)))
              \<lparr>trace := trace (run_deferred env (DeferPreview ?out) S) @
                 [CloseOutput, RemoveAll d] @ replicate ?n CloseInput\<rparr>)"
    and f: "mdTxt S = mdTxt ?s1" "sink S = TmpFile ?out" "tmp_dir S = Some (d, [''out.html''])"
      "stderr S = []" "trace S = trace ?s1 @ [MkdirTemp, CreateFile ?out] @ es"
      "set es \<subseteq> {ParseTemplate, ExecuteTemplate, Convert, CopySuffix}"
    by blast
  show "sink (main env fl) = TmpFile ?out"
    by (simp add: m f)
  show "tmp_dir (main env fl) = (if os_remove_all env d then None else Some (d, [''out.html'']))"
    by (simp add: m f run_deferred_eq split: option.splits)
  show "RemoveFailed d \<in> set (stderr (main env fl))" if "\<not> os_remove_all env d"
    using that by (simp add: m f run_deferred_eq finish_def split: option.splits)
  have pre: "\<forall>e\<in>set (trace S). (\<forall>q. e \<noteq> RunOpen q) \<and> (\<forall>k. e \<noteq> SleepSeconds k) \<and>
      (\<forall>x. e \<noteq> RemoveAll x) \<and> e \<noteq> CloseInput"
  proof
    fix e assume "e \<in> set (trace S)"
    then consider "e \<in> set (trace ?s1)" | "e = MkdirTemp" | "e = CreateFile ?out" | "e \<in> set es"
      by (auto simp: f)
    then show "(\<forall>q. e \<noteq> RunOpen q) \<and> (\<forall>k. e \<noteq> SleepSeconds k) \<and>
        (\<forall>x. e \<noteq> RemoveAll x) \<and> e \<noteq> CloseInput"
    proof cases
      case 1
      with read_input_fields(6)[of env fl] have "is_input_event e" by blast
      then show ?thesis by (cases e) simp_all
    next
      case 4
      with f(6) show ?thesis by auto
    qed simp_all
  qed
  let ?L = "if panicking S = None
      then RunOpen ?out # (if open_cmd env ?out then [SleepSeconds 1] else []) else []"
  have t: "trace (main env fl) = trace S @ ?L @ [CloseOutput, RemoveAll d] @ replicate ?n CloseInput"
    by (simp add: m trace_run_deferred)
  have L: "?L = [] \<or> ?L = [RunOpen ?out, SleepSeconds 1] \<and> open_cmd env ?out \<or>
      ?L = [RunOpen ?out] \<and> \<not> open_cmd env ?out \<and>
        last (raised (main env fl)) = LaunchError \<and> exit_status (main env fl) = 2"
    by (simp add: m run_deferred_eq exit_status_def split: option.splits)
  from t pre L show "\<exists>pre L. trace (main env fl) =
            pre @ L @ [CloseOutput, RemoveAll d] @ replicate ?n CloseInput \<and>
          (\<forall>e\<in>set pre. (\<forall>q. e \<noteq> RunOpen q) \<and> (\<forall>k. e \<noteq> SleepSeconds k) \<and>
              (\<forall>x. e \<noteq> RemoveAll x) \<and> e \<noteq> CloseInput) \<and>
          (L = [] \<or>
           L = [RunOpen ?out, SleepSeconds 1] \<and> open_cmd env ?out \<or>
           L = [RunOpen ?out] \<and> \<not> open_cmd env ?out \<and>
             last (raised (main env fl)) = LaunchError \<and> exit_status (main env fl) = 2)"
    by blast
qed

lemma created_events:
  "filter is_create (trace (main env fl)) =
     (if panicking (read_input env fl init_state) = None \<and> previewOnly fl
      then MkdirTemp #
        (case os_mkdir_temp env of None \<Rightarrow> [] | Some d \<Rightarrow> [CreateFile (path_join d ''out.html'')])
      else [])"
proof (cases "panicking (read_input env fl init_state) = None")
  case False
  then show ?thesis
    by (simp add: main_def input_failed input_trace_filters)
next
  case True
  let ?s1 = "read_input env fl init_state"
  let ?X = "if previewOnly fl
      then MkdirTemp #
        (case os_mkdir_temp env of None \<Rightarrow> [] | Some d \<Rightarrow> [CreateFile (path_join d ''out.html'')])
      else []"
  have "filter is_create (trace (select_sink env fl ?s1)) = ?X"
    by (simp add: select_sink_def Let_def record_event_def panic_def add_defer_def
          input_trace_filters split: option.splits)
  then have "filter is_create (trace (main env fl)) = ?X"
    unfolding main_def input_read[OF True]
    by (rule after_sink_rule[where P = "\<lambda>s. filter is_create (trace s) = ?X"]) simp_all
  with True show ?thesis by simp
qed

lemma mkdir_attempted:
  assumes "MkdirTemp \<in> set (trace (main env fl))"
  shows "panicking (read_input env fl init_state) = None \<and> previewOnly fl"
proof -
  from assms have "MkdirTemp \<in> set (filter is_create (trace (main env fl)))" by simp
  then show ?thesis unfolding created_events by (simp split: if_splits)
qed

lemma launch_only_with_file:
  assumes "RunOpen p \<in> set (trace (main env fl))"
  shows "panicking (read_input env fl init_state) = None \<and> previewOnly fl \<and>
         (\<exists>d. os_mkdir_temp env = Some d \<and> os_create env (path_join d ''out.html''))"
proof -
  let ?s1 = "read_input env fl init_state"
  have inp: "RunOpen p \<notin> set (trace ?s1)"
    using read_input_fields(6)[of env fl] by auto
  have ok: "panicking ?s1 = None"
  proof (rule ccontr)
    assume "panicking ?s1 \<noteq> None"
    from input_failed[OF this, of htmlPrefixWithCSS] assms inp show False
      by (simp add: main_def)
  qed
  have pv: "previewOnly fl"
  proof (rule ccontr)
    assume "\<not> previewOnly fl"
    from run_stdout[OF ok this] obtain S es where
      "main env fl = finish (S\<lparr>trace := trace S @ replicate (length (defers ?s1)) CloseInput\<rparr>)"
      "trace S = trace ?s1 @ es" "set es \<subseteq> {ParseTemplate, ExecuteTemplate, Convert, CopySuffix}"
      by blast
    with assms inp show False by auto
  qed
  have "\<exists>d. os_mkdir_temp env = Some d \<and> os_create env (path_join d ''out.html'')"
  proof (cases "os_mkdir_temp env")
    case None
    from no_dir_fields(6)[OF ok pv None] assms inp show ?thesis by simp
  next
    case (Some d)
    show ?thesis
    proof (cases "os_create env (path_join d ''out.html'')")
      case True
      with Some show ?thesis by simp
    next
      case False
      from no_file_fields(5)[OF ok pv Some False] assms inp show ?thesis by simp
    qed
  qed
  with ok pv show ?thesis by simp
qed

lemma rest_ok:
  assumes p: "panicking s2 = None" and w: "written s2 = []"
    and e: "snd (md_convert env md (mdTxt s2))"
    and f: "fits env (length ((if style fl then htmlPreamble else []) @
              fst (md_convert env md (mdTxt s2)) @ (if style fl then htmlSuffix else [])))"
  shows "run_defers env (next_stage (next_stage s2 (write_prefix htmlPrefixWithCSS env fl)) (convert env)) =
     fold (run_deferred env) (defers s2)
       (s2\<lparr>written := (if style fl then htmlPreamble else []) @
             fst (md_convert env md (mdTxt s2)) @ (if style fl then htmlSuffix else []),
           defers := (if style fl then [DeferSuffix] else []) @ defers s2,
           trace := trace s2 @
             (if style fl then [ParseTemplate, ExecuteTemplate, Convert, CopySuffix] else [Convert])\<rparr>)"
proof (cases "style fl")
  case False
  have B: "next_stage (next_stage s2 (write_prefix htmlPrefixWithCSS env fl)) (convert env) =
      convert env s2"
    by (simp add: next_stage_run[OF p] write_prefix_off[OF False])
  show ?thesis
    unfolding B run_defers_def
    using False e f w by (simp add: convert_eq)
next
  case True
  let ?body = "fst (md_convert env md (mdTxt s2))"
  from f True have ft: "fits env (length htmlPreamble + length ?body + length htmlSuffix)"
    by (simp add: add.assoc)
  then have fp: "fits env (length htmlPreamble)" and fb: "fits env (length htmlPreamble + length ?body)"
    by (auto elim: fits_mono)
  let ?s3 = "s2\<lparr>written := htmlPreamble, defers := DeferSuffix # defers s2,
                 trace := trace s2 @ [ParseTemplate, ExecuteTemplate]\<rparr>"
  have s3: "next_stage s2 (write_prefix htmlPrefixWithCSS env fl) = ?s3"
    using True fp w by (simp add: next_stage_run[OF p] write_prefix_eq)
  have p3: "panicking ?s3 = None" using p by simp
  let ?B = "s2\<lparr>written := htmlPreamble @ ?body, defers := DeferSuffix # defers s2,
                 trace := trace s2 @ [ParseTemplate, ExecuteTemplate, Convert]\<rparr>"
  have B: "next_stage ?s3 (convert env) = ?B"
    using e fb by (simp add: next_stage_run[OF p3] convert_eq)
  have S: "run_deferred env DeferSuffix ?B =
      s2\<lparr>written := htmlPreamble @ ?body @ htmlSuffix, defers := DeferSuffix # defers s2,
         trace := trace s2 @ [ParseTemplate, ExecuteTemplate, Convert, CopySuffix]\<rparr>"
    using p ft by (simp add: run_deferred_suffix add.assoc)
  show ?thesis
    unfolding s3 B run_defers_def
    using True by (simp add: S del: state.simps)
qed

lemma rest_fails:
  assumes p: "panicking s2 = None" and w: "written s2 = []"
    and n: "\<not> (snd (md_convert env md (mdTxt s2)) \<and>
          fits env (length ((if style fl then htmlPreamble else []) @
              fst (md_convert env md (mdTxt s2)) @ (if style fl then htmlSuffix else []))))"
  shows "raised (finish (run_defers env
           (next_stage (next_stage s2 (write_prefix htmlPrefixWithCSS env fl)) (convert env)))) \<noteq> []"
proof (cases "style fl")
  case False
  have B: "next_stage (next_stage s2 (write_prefix htmlPrefixWithCSS env fl)) (convert env) =
      convert env s2"
    by (simp add: next_stage_run[OF p] write_prefix_off[OF False])
  have "raised (convert env s2) \<noteq> []"
    using n False w by (auto simp: convert_eq)
  then show ?thesis
    unfolding B run_defers_def by (rule raised_grows_defers)
next
  case True
  let ?body = "fst (md_convert env md (mdTxt s2))"
  show ?thesis
  proof (cases "fits env (length htmlPreamble)")
    case False
    let ?s3 = "write_prefix htmlPrefixWithCSS env fl s2"
    from True False w have r: "raised ?s3 \<noteq> []" and q: "panicking ?s3 = Some PrefixWriteError"
      by (simp_all add: write_prefix_eq)
    have "next_stage (next_stage s2 (write_prefix htmlPrefixWithCSS env fl)) (convert env) = ?s3"
      by (simp only: next_stage_run[OF p] next_stage_skip[OF q])
    then show ?thesis
      unfolding run_defers_def using raised_grows_defers[OF r] by simp
  next
    case fp: True
    let ?s3 = "s2\<lparr>written := htmlPreamble, defers := DeferSuffix # defers s2,
                   trace := trace s2 @ [ParseTemplate, ExecuteTemplate]\<rparr>"
    have s3: "next_stage s2 (write_prefix htmlPrefixWithCSS env fl) = ?s3"
      using True fp w by (simp add: next_stage_run[OF p] write_prefix_eq)
    have p3: "panicking ?s3 = None" using p by simp
    show ?thesis
    proof (cases "snd (md_convert env md (mdTxt s2)) \<and> fits env (length htmlPreamble + length ?body)")
      case False
      then have "raised (convert env ?s3) \<noteq> []"
        by (auto simp: convert_eq)
      then show ?thesis
        unfolding s3 next_stage_run[OF p3] run_defers_def by (rule raised_grows_defers)
    next
      case cv: True
      let ?B = "s2\<lparr>written := htmlPreamble @ ?body, defers := DeferSuffix # defers s2,
                     trace := trace s2 @ [ParseTemplate, ExecuteTemplate, Convert]\<rparr>"
      have B: "next_stage ?s3 (convert env) = ?B"
        using cv by (simp add: next_stage_run[OF p3] convert_eq)
      from n cv True have nf: "\<not> fits env (length htmlPreamble + length ?body + length htmlSuffix)"
        by (simp add: add.assoc)
      have "raised (run_deferred env DeferSuffix ?B) \<noteq> []"
        using p nf by (simp add: run_deferred_suffix add.assoc)
      then have "raised (finish (fold (run_deferred env) (defers s2) (run_deferred env DeferSuffix ?B))) \<noteq> []"
        by (rule raised_grows_defers)
      then show ?thesis
        unfolding s3 B run_defers_def by simp
    qed
  qed
qed

lemma ok_stdout:
  assumes ok: "panicking (read_input env fl init_state) = None" and np: "\<not> previewOnly fl"
  shows "raised (main env fl) = [] \<longleftrightarrow>
           snd (md_convert env md (mdTxt (read_input env fl init_state))) \<and>
           fits env (length ((if style fl then htmlPreamble else []) @
              fst (md_convert env md (mdTxt (read_input env fl init_state))) @
              (if style fl then htmlSuffix else [])))" (is "_ \<longleftrightarrow> ?E \<and> ?F")
    and "raised (main env fl) = [] \<Longrightarrow>
           written (main env fl) = (if style fl then htmlPreamble else []) @
              fst (md_convert env md (mdTxt (read_input env fl init_state))) @
              (if style fl then htmlSuffix else []) \<and>
           filter is_sink_write (trace (main env fl)) =
              (if style fl then [ExecuteTemplate, Convert, CopySuffix] else [Convert]) \<and>
           mdTxt (main env fl) = mdTxt (read_input env fl init_state) \<and>
           exit_status (main env fl) = 0" (is "_ \<Longrightarrow> ?C")
proof -
  let ?s1 = "read_input env fl init_state"
  have c: "set (defers ?s1) \<subseteq> {DeferCloseInput}" by (rule read_input_fields)
  have w: "written ?s1 = []" by (rule read_input_fields)
  have m: "main env fl =
      finish (run_defers env (next_stage (next_stage ?s1 (write_prefix htmlPrefixWithCSS env fl)) (convert env)))"
    by (simp add: main_def input_read[OF ok] select_sink_stdout[OF np])
  have "(raised (main env fl) = [] \<longleftrightarrow> ?E \<and> ?F) \<and> (raised (main env fl) = [] \<longrightarrow> ?C)"
  proof (cases "?E \<and> ?F")
    case False
    have "raised (main env fl) \<noteq> []"
      unfolding m by (rule rest_fails[OF ok w False])
    with False show ?thesis by blast
  next
    case True
    then have e: ?E and f: ?F by simp_all
    show ?thesis
      unfolding m rest_ok[OF ok w e f]
      using True ok read_input_ok[OF ok]
      by (simp add: fold_close_input[OF c] input_trace_filters exit_status_def)
  qed
  then show "raised (main env fl) = [] \<longleftrightarrow> ?E \<and> ?F" and "raised (main env fl) = [] \<Longrightarrow> ?C"
    by blast+
qed

lemma ok_file:
  assumes ok: "panicking (read_input env fl init_state) = None" and pv: "previewOnly fl"
    and d: "os_mkdir_temp env = Some d" "os_create env (path_join d ''out.html'')"
  shows "raised (main env fl) = [] \<longleftrightarrow>
           (snd (md_convert env md (mdTxt (read_input env fl init_state))) \<and>
            fits env (length ((if style fl then htmlPreamble else []) @
              fst (md_convert env md (mdTxt (read_input env fl init_state))) @
              (if style fl then htmlSuffix else [])))) \<and>
           open_cmd env (path_join d ''out.html'')" (is "_ \<longleftrightarrow> (?E \<and> ?F) \<and> ?O")
    and "raised (main env fl) = [] \<Longrightarrow>
           written (main env fl) = (if style fl then htmlPreamble else []) @
              fst (md_convert env md (mdTxt (read_input env fl init_state))) @
              (if style fl then htmlSuffix else []) \<and>
           filter is_sink_write (trace (main env fl)) =
              (if style fl then [ExecuteTemplate, Convert, CopySuffix] else [Convert]) \<and>
           mdTxt (main env fl) = mdTxt (read_input env fl init_state) \<and>
           exit_status (main env fl) = 0" (is "_ \<Longrightarrow> ?C")
proof -
  let ?s1 = "read_input env fl init_state"
  let ?out = "path_join d ''out.html''"
  let ?s2 = "?s1\<lparr>sink := TmpFile ?out, tmp_dir := Some (d, [''out.html'']),
         defers := DeferPreview ?out # DeferCloseOutput # DeferRemoveAll d # defers ?s1,
         trace := trace ?s1 @ [MkdirTemp, CreateFile ?out]\<rparr>"
  have c: "set (defers ?s1) \<subseteq> {DeferCloseInput}" by (rule read_input_fields)
  have p2: "panicking ?s2 = None" using ok by simp
  have w2: "written ?s2 = []" by (simp add: read_input_fields)
  have m2: "mdTxt ?s2 = mdTxt ?s1" by simp
  have m: "main env fl =
      finish (run_defers env (next_stage (next_stage ?s2 (write_prefix htmlPrefixWithCSS env fl)) (convert env)))"
    by (simp add: main_def input_read[OF ok] select_sink_file[OF pv d])
  have "(raised (main env fl) = [] \<longleftrightarrow> (?E \<and> ?F) \<and> ?O) \<and> (raised (main env fl) = [] \<longrightarrow> ?C)"
  proof (cases "?E \<and> ?F")
    case False
    then have "\<not> (snd (md_convert env md (mdTxt ?s2)) \<and>
          fits env (length ((if style fl then htmlPreamble else []) @
              fst (md_convert env md (mdTxt ?s2)) @ (if style fl then htmlSuffix else []))))"
      by simp
    then have "raised (main env fl) \<noteq> []"
      unfolding m by (rule rest_fails[OF p2 w2])
    with False show ?thesis by blast
  next
    case True
    then have e: "snd (md_convert env md (mdTxt ?s2))"
      and f: "fits env (length ((if style fl then htmlPreamble else []) @
              fst (md_convert env md (mdTxt ?s2)) @ (if style fl then htmlSuffix else [])))"
      by simp_all
    show ?thesis
      unfolding m rest_ok[OF p2 w2 e f]
      using True ok read_input_ok[OF ok]
      by (simp add: fold_close_input[OF c] input_trace_filters exit_status_def run_deferred_eq
            read_input_fields)
  qed
  then show "raised (main env fl) = [] \<longleftrightarrow> (?E \<and> ?F) \<and> ?O" and "raised (main env fl) = [] \<Longrightarrow> ?C"
    by blast+
qed

lemma run_ok_iff:
  "raised (main env fl) = [] \<longleftrightarrow>
     panicking (read_input env fl init_state) = None \<and>
     (previewOnly fl \<longrightarrow>
        (\<exists>d. os_mkdir_temp env = Some d \<and> os_create env (path_join d ''out.html'') \<and>
             open_cmd env (path_join d ''out.html''))) \<and>
     snd (md_convert env md (mdTxt (read_input env fl init_state))) \<and>
     fits env (length ((if style fl then htmlPreamble else []) @
        fst (md_convert env md (mdTxt (read_input env fl init_state))) @
        (if style fl then htmlSuffix else [])))"
proof (cases "panicking (read_input env fl init_state) = None")
  case False
  from read_input_panic_raised[OF False] input_failed[OF False, of htmlPrefixWithCSS] False
  show ?thesis by (simp add: main_def)
next
  case ok: True
  show ?thesis
  proof (cases "previewOnly fl")
    case False
    with ok ok_stdout(1)[OF ok False] show ?thesis by blast
  next
    case pv: True
    show ?thesis
    proof (cases "os_mkdir_temp env")
      case None
      with no_dir_fields(1)[OF ok pv None] pv show ?thesis by auto
    next
      case (Some d)
      show ?thesis
      proof (cases "os_create env (path_join d ''out.html'')")
        case False
        with no_file_fields(1)[OF ok pv Some False] pv Some show ?thesis by auto
      next
        case True
        with ok_file(1)[OF ok pv Some True] ok pv Some show ?thesis by auto
      qed
    qed
  qed
qed

lemma run_ok_facts:
  assumes "raised (main env fl) = []"
  shows "written (main env fl) = (if style fl then htmlPreamble else []) @
            fst (md_convert env md (mdTxt (read_input env fl init_state))) @
            (if style fl then htmlSuffix else [])"
    and "filter is_sink_write (trace (main env fl)) =
            (if style fl then [ExecuteTemplate, Convert, CopySuffix] else [Convert])"
    and "mdTxt (main env fl) = mdTxt (read_input env fl init_state)"
    and "exit_status (main env fl) = 0"
proof -
  from assms run_ok_iff[of env fl]
  have ok: "panicking (read_input env fl init_state) = None"
    and pv: "previewOnly fl \<longrightarrow>
        (\<exists>d. os_mkdir_temp env = Some d \<and> os_create env (path_join d ''out.html''))"
    by blast+
  have "written (main env fl) = (if style fl then htmlPreamble else []) @
            fst (md_convert env md (mdTxt (read_input env fl init_state))) @
            (if style fl then htmlSuffix else []) \<and>
        filter is_sink_write (trace (main env fl)) =
            (if style fl then [ExecuteTemplate, Convert, CopySuffix] else [Convert]) \<and>
        mdTxt (main env fl) = mdTxt (read_input env fl init_state) \<and>
        exit_status (main env fl) = 0"
  proof (cases "previewOnly fl")
    case False
    from ok_stdout(2)[OF ok False assms] show ?thesis .
  next
    case True
    with pv obtain d where "os_mkdir_temp env = Some d" "os_create env (path_join d ''out.html'')"
      by blast
    from ok_file(2)[OF ok True this assms] show ?thesis .
  qed
  then show "written (main env fl) = (if style fl then htmlPreamble else []) @
            fst (md_convert env md (mdTxt (read_input env fl init_state))) @
            (if style fl then htmlSuffix else [])"
    and "filter is_sink_write (trace (main env fl)) =
            (if style fl then [ExecuteTemplate, Convert, CopySuffix] else [Convert])"
    and "mdTxt (main env fl) = mdTxt (read_input env fl init_state)"
    and "exit_status (main env fl) = 0"
    by simp_all
qed

subsection \<open>The style wrapper\<close>

lemma strip_wrapper_wrapped: "strip_wrapper (htmlPreamble @ body @ htmlSuffix) = Some body"
  by (simp add: strip_wrapper_def Let_def)

text \<open>
  C1. When the run with \<^verbatim>\<open>-style\<close> succeeds, the run without \<^verbatim>\<open>-style\<close> on the same input
  and in the same environment succeeds too, and its output is the output of the first
  with the fixed preamble removed from the front and the fixed suffix from the end.
\<close>

theorem style_wraps_plain_output:
  assumes "raised (main env (fl\<lparr>style := True\<rparr>)) = []"
  shows "raised (main env (fl\<lparr>style := False\<rparr>)) = [] \<and>
         strip_wrapper (written (main env (fl\<lparr>style := True\<rparr>))) =
           Some (written (main env (fl\<lparr>style := False\<rparr>)))"
proof -
  let ?body = "fst (md_convert env md (mdTxt (read_input env fl init_state)))"
  from assms run_ok_iff[of env "fl\<lparr>style := True\<rparr>"]
  have ok: "panicking (read_input env fl init_state) = None"
    and pv: "previewOnly fl \<longrightarrow>
        (\<exists>d. os_mkdir_temp env = Some d \<and> os_create env (path_join d ''out.html'') \<and>
             open_cmd env (path_join d ''out.html''))"
    and e: "snd (md_convert env md (mdTxt (read_input env fl init_state)))"
    and f: "fits env (length (htmlPreamble @ ?body @ htmlSuffix))"
    by (simp_all add: read_input_style)
  from f have "fits env (length ?body)"
    by (rule fits_mono) simp
  with ok pv e have plain: "raised (main env (fl\<lparr>style := False\<rparr>)) = []"
    by (simp add: run_ok_iff read_input_style)
  have "written (main env (fl\<lparr>style := True\<rparr>)) = htmlPreamble @ ?body @ htmlSuffix"
    using run_ok_facts(1)[OF assms] by (simp add: read_input_style)
  moreover have "written (main env (fl\<lparr>style := False\<rparr>)) = ?body"
    using run_ok_facts(1)[OF plain] by (simp add: read_input_style)
  ultimately show ?thesis
    using plain by (simp add: strip_wrapper_wrapped)
qed

theorem style_wraps_plain_output_witness:
  "raised (main env_demo \<lparr>inPath = ''-'', previewOnly = False, style = True\<rparr>) = [] \<and>
   raised (main env_demo \<lparr>inPath = ''-'', previewOnly = False, style = False\<rparr>) = [] \<and>
   strip_wrapper (written (main env_demo \<lparr>inPath = ''-'', previewOnly = False, style = True\<rparr>)) =
     Some (written (main env_demo \<lparr>inPath = ''-'', previewOnly = False, style = False\<rparr>))"
proof -
  have a: "raised (main env_demo (\<lparr>inPath = ''-'', previewOnly = False, style = False\<rparr>\<lparr>style := True\<rparr>)) = []"
    by (simp add: eval_defs)
  from a style_wraps_plain_output[OF a] show ?thesis by simp
qed

text \<open>
  C2. A run with \<^verbatim>\<open>-style\<close> in which nothing fails writes three parts to the sink, in this
  order: the preamble (the opening tags around the style sheet), the HTML of the engine
  for the input, the closing tags; the writes are the executed template, the conversion
  and the copied suffix, and the process exits with status 0.
\<close>

theorem styled_output_parts:
  \<open>(style fl \<and> raised (main env fl) = [] \<longrightarrow>
      written (main env fl) =
        htmlPreamble @ fst (md_convert env md (mdTxt (main env fl))) @ htmlSuffix \<and>
      filter is_sink_write (trace (main env fl)) = [ExecuteTemplate, Convert, CopySuffix] \<and>
      exit_status (main env fl) = 0) \<and>
   htmlPreamble =
     ''<html>\<newline><head>\<newline><style>\<newline>'' @ markDownStyleGithubCSS @
     ''\<newline></style>\<newline></head>\<newline><body>\<newline><article class="markdown-body">\<newline>'' \<and>
   htmlSuffix = ''\<newline></article>\<newline></body>\<newline></html>''\<close>
proof (intro conjI impI)
  assume a: "style fl \<and> raised (main env fl) = []"
  then have r: "raised (main env fl) = []" and s: "style fl" by simp_all
  note f = run_ok_facts[OF r]
  show "written (main env fl) =
        htmlPreamble @ fst (md_convert env md (mdTxt (main env fl))) @ htmlSuffix"
    using s by (simp add: f(1) f(3))
  show "filter is_sink_write (trace (main env fl)) = [ExecuteTemplate, Convert, CopySuffix]"
    using s by (simp add: f(2))
  show "exit_status (main env fl) = 0" by (rule f(4))
qed (simp_all only: htmlPreamble_def htmlSuffix_def)

theorem styled_output_parts_witness:
  "raised (main env_demo \<lparr>inPath = ''doc.md'', previewOnly = True, style = True\<rparr>) = [] \<and>
   written (main env_demo \<lparr>inPath = ''doc.md'', previewOnly = True, style = True\<rparr>) =
     htmlPreamble @ ''<h1>Hi</h1>\<newline>'' @ htmlSuffix \<and>
   filter is_sink_write (trace (main env_demo \<lparr>inPath = ''doc.md'', previewOnly = True, style = True\<rparr>)) =
     [ExecuteTemplate, Convert, CopySuffix] \<and>
   exit_status (main env_demo \<lparr>inPath = ''doc.md'', previewOnly = True, style = True\<rparr>) = 0"
proof -
  have a: "raised (main env_demo \<lparr>inPath = ''doc.md'', previewOnly = True, style = True\<rparr>) = []"
    by (simp add: eval_defs)
  have b: "md_convert env_demo opts src = (''<h1>Hi</h1>\<newline>'', True)" for opts src
    by (simp add: env_demo_def)
  from a styled_output_parts[of "\<lparr>inPath = ''doc.md'', previewOnly = True, style = True\<rparr>" env_demo]
  show ?thesis by (simp add: b)
qed

subsection \<open>The input resolver\<close>

lemma input_kept:
  assumes "mdTxt (read_input env fl init_state) = bs"
    and "filter is_input_event (trace (read_input env fl init_state)) = es"
  shows "mdTxt (main env fl) = bs \<and> filter is_input_event (trace (main env fl)) = es"
  unfolding main_def
  by (rule main_invariant[where P = "\<lambda>s. mdTxt s = bs \<and> filter is_input_event (trace s) = es"])
     (simp_all add: assms)

lemma stdin_ok:
  assumes "inPath fl = [] \<or> inPath fl = ''-''" "stdin_read env = Some bs"
  shows "mdTxt (main env fl) = bs \<and> filter is_input_event (trace (main env fl)) = [ReadAll]"
  by (rule input_kept)
     (use assms in \<open>simp_all add: read_input_stdin read_all_def record_event_def init_state_def\<close>)

lemma file_ok:
  assumes "inPath fl \<noteq> []" "inPath fl \<noteq> ''-''" "os_open env (inPath fl) = OpenOk (Some bs)"
  shows "mdTxt (main env fl) = bs \<and>
         filter is_input_event (trace (main env fl)) = [OpenInput (inPath fl), ReadAll]"
  by (rule input_kept)
     (use assms in \<open>auto simp: read_input_def read_all_def record_event_def add_defer_def init_state_def\<close>)

lemma stdin_fails:
  assumes "inPath fl = [] \<or> inPath fl = ''-''" "stdin_read env = None"
  shows "raised (main env fl) = [InputReadError] \<and> exit_status (main env fl) = 2 \<and>
         trace (main env fl) = [ReadAll] \<and> written (main env fl) = []"
proof -
  from assms have "read_input env fl init_state =
      init_state\<lparr>panicking := Some InputReadError, raised := [InputReadError], trace := [ReadAll]\<rparr>"
    by (simp add: read_input_stdin read_all_def panic_def record_event_def init_state_def)
  then show ?thesis
    by (simp add: main_def main_with_def main_body_def next_stage_def run_defers_def
          exit_status_def init_state_def)
qed

lemma open_fails:
  assumes "inPath fl \<noteq> []" "inPath fl \<noteq> ''-''" "os_open env (inPath fl) = OpenFails"
  shows "raised (main env fl) = [InputOpenError] \<and> exit_status (main env fl) = 2 \<and>
         trace (main env fl) = [OpenInput (inPath fl)] \<and> written (main env fl) = []"
proof -
  from assms have "read_input env fl init_state =
      init_state\<lparr>panicking := Some InputOpenError, raised := [InputOpenError],
        trace := [OpenInput (inPath fl)]\<rparr>"
    by (simp add: read_input_def panic_def record_event_def init_state_def)
  then show ?thesis
    by (simp add: main_def main_with_def main_body_def next_stage_def run_defers_def
          exit_status_def init_state_def)
qed

lemma file_read_fails:
  assumes "inPath fl \<noteq> []" "inPath fl \<noteq> ''-''" "os_open env (inPath fl) = OpenOk None"
  shows "raised (main env fl) = [InputReadError] \<and> exit_status (main env fl) = 2 \<and>
         trace (main env fl) = [OpenInput (inPath fl), ReadAll, CloseInput] \<and>
         written (main env fl) = []"
proof -
  from assms have "read_input env fl init_state =
      init_state\<lparr>defers := [DeferCloseInput], panicking := Some InputReadError,
        raised := [InputReadError], trace := [OpenInput (inPath fl), ReadAll]\<rparr>"
    by (simp add: read_input_def read_all_def panic_def record_event_def add_defer_def init_state_def)
  then show ?thesis
    by (simp add: main_def main_with_def main_body_def next_stage_def run_defers_def
          exit_status_def init_state_def run_deferred_eq)
qed

text \<open>
  C4. With \<^verbatim>\<open>-i\<close> empty or \<^verbatim>\<open>-\<close> the input is all of standard input and no file is
  opened; otherwise the named file is opened and read. A file that cannot be opened fails
  the run with \<open>InputOpenError\<close>, a failing read with \<open>InputReadError\<close>; in both cases the
  process exits with status 2 and the trace shows that nothing was converted or written.
\<close>

theorem input_resolver:
  "((inPath fl = [] \<or> inPath fl = ''-'') \<and> stdin_read env = Some bs \<longrightarrow>
      mdTxt (main env fl) = bs \<and> filter is_input_event (trace (main env fl)) = [ReadAll]) \<and>
   ((inPath fl = [] \<or> inPath fl = ''-'') \<and> stdin_read env = None \<longrightarrow>
      raised (main env fl) = [InputReadError] \<and> exit_status (main env fl) = 2 \<and>
      trace (main env fl) = [ReadAll] \<and> written (main env fl) = []) \<and>
   (inPath fl \<noteq> [] \<and> inPath fl \<noteq> ''-'' \<and> os_open env (inPath fl) = OpenFails \<longrightarrow>
      raised (main env fl) = [InputOpenError] \<and> exit_status (main env fl) = 2 \<and>
      trace (main env fl) = [OpenInput (inPath fl)] \<and> written (main env fl) = []) \<and>
   (inPath fl \<noteq> [] \<and> inPath fl \<noteq> ''-'' \<and> os_open env (inPath fl) = OpenOk None \<longrightarrow>
      raised (main env fl) = [InputReadError] \<and> exit_status (main env fl) = 2 \<and>
      trace (main env fl) = [OpenInput (inPath fl), ReadAll, CloseInput] \<and>
      written (main env fl) = []) \<and>
   (inPath fl \<noteq> [] \<and> inPath fl \<noteq> ''-'' \<and> os_open env (inPath fl) = OpenOk (Some bs) \<longrightarrow>
      mdTxt (main env fl) = bs \<and>
      filter is_input_event (trace (main env fl)) = [OpenInput (inPath fl), ReadAll])"
  using stdin_ok[of fl env bs] stdin_fails[of fl env] open_fails[of fl env]
    file_read_fails[of fl env] file_ok[of fl env bs]
  by blast

theorem input_resolver_witness:
  "mdTxt (main env_demo \<lparr>inPath = ''-'', previewOnly = False, style = False\<rparr>) = ''# Hi\<newline>'' \<and>
   filter is_input_event (trace (main env_demo \<lparr>inPath = ''-'', previewOnly = False, style = False\<rparr>)) =
     [ReadAll] \<and>
   raised (main env_read_fails \<lparr>inPath = [], previewOnly = False, style = False\<rparr>) = [InputReadError] \<and>
   exit_status (main env_read_fails \<lparr>inPath = [], previewOnly = False, style = False\<rparr>) = 2 \<and>
   raised (main env_demo \<lparr>inPath = ''none.md'', previewOnly = False, style = False\<rparr>) = [InputOpenError] \<and>
   trace (main env_demo \<lparr>inPath = ''none.md'', previewOnly = False, style = False\<rparr>) =
     [OpenInput ''none.md''] \<and>
   raised (main env_file_read_fails \<lparr>inPath = ''doc.md'', previewOnly = False, style = False\<rparr>) =
     [InputReadError] \<and>
   mdTxt (main env_demo \<lparr>inPath = ''doc.md'', previewOnly = False, style = False\<rparr>) = ''# Hi\<newline>'' \<and>
   filter is_input_event (trace (main env_demo \<lparr>inPath = ''doc.md'', previewOnly = False, style = False\<rparr>)) =
     [OpenInput ''doc.md'', ReadAll]"
  using
    input_resolver[where fl = "\<lparr>inPath = ''-'', previewOnly = False, style = False\<rparr>"
      and env = env_demo and bs = "''# Hi\<newline>''"]
    input_resolver[where fl = "\<lparr>inPath = [], previewOnly = False, style = False\<rparr>"
      and env = env_read_fails and bs = "[]"]
    input_resolver[where fl = "\<lparr>inPath = ''none.md'', previewOnly = False, style = False\<rparr>"
      and env = env_demo and bs = "[]"]
    input_resolver[where fl = "\<lparr>inPath = ''doc.md'', previewOnly = False, style = False\<rparr>"
      and env = env_file_read_fails and bs = "[]"]
    input_resolver[where fl = "\<lparr>inPath = ''doc.md'', previewOnly = False, style = False\<rparr>"
      and env = env_demo and bs = "''# Hi\<newline>''"]
  by (simp add: env_demo_def env_read_fails_def env_file_read_fails_def)

subsection \<open>The sink selector in preview mode\<close>

text \<open>
  C5, as stated: when the directory or the file cannot be created, no directory is left.
  Counterexample: the directory is created, the file is not, and the deferred
  \<^verbatim>\<open>os.RemoveAll\<close> fails too; the run aborts with \<open>TempFileError\<close> and the directory is
  still there.
\<close>

theorem leftover_directory_counterexample:
  "raised (main env_create_fails \<lparr>inPath = ''-'', previewOnly = True, style = False\<rparr>) = [TempFileError] \<and>
   tmp_dir (main env_create_fails \<lparr>inPath = ''-'', previewOnly = True, style = False\<rparr>) =
     Some (''/tmp/rmd1'', [])"
  by (simp add: eval_defs)

text \<open>
  C5, amended. In a run that reaches \<^verbatim>\<open>os.MkdirTemp\<close> (so with \<^verbatim>\<open>-preview\<close>):
  \<^item> if the directory cannot be created, the run aborts with \<open>TempDirError\<close> and status 2,
    nothing is written or converted and there is no directory;
  \<^item> if the file cannot be created, the run aborts with \<open>TempFileError\<close> and status 2,
    nothing is written or converted, the removal of the directory is attempted, and no
    directory is left when that removal succeeds;
  \<^item> otherwise exactly one directory and one file, \<^verbatim>\<open>out.html\<close> in that directory, are
    created, and the file is the sink.
\<close>

theorem preview_sink:
  assumes "MkdirTemp \<in> set (trace (main env fl))"
  shows "(os_mkdir_temp env = None \<longrightarrow>
            raised (main env fl) = [TempDirError] \<and> exit_status (main env fl) = 2 \<and>
            tmp_dir (main env fl) = None \<and> written (main env fl) = [] \<and>
            filter is_sink_write (trace (main env fl)) = [] \<and>
            filter is_create (trace (main env fl)) = [MkdirTemp]) \<and>
         (os_mkdir_temp env = Some d \<and> \<not> os_create env (path_join d ''out.html'') \<longrightarrow>
            raised (main env fl) = [TempFileError] \<and> exit_status (main env fl) = 2 \<and>
            written (main env fl) = [] \<and> filter is_sink_write (trace (main env fl)) = [] \<and>
            RemoveAll d \<in> set (trace (main env fl)) \<and>
            tmp_dir (main env fl) = (if os_remove_all env d then None else Some (d, []))) \<and>
         (os_mkdir_temp env = Some d \<and> os_create env (path_join d ''out.html'') \<longrightarrow>
            sink (main env fl) = TmpFile (path_join d ''out.html'') \<and>
            filter is_create (trace (main env fl)) =
              [MkdirTemp, CreateFile (path_join d ''out.html'')])"
proof -
  from mkdir_attempted[OF assms]
  have ok: "panicking (read_input env fl init_state) = None" and pv: "previewOnly fl" by simp_all
  show ?thesis
  proof (intro conjI impI)
    assume n: "os_mkdir_temp env = None"
    note f = no_dir_fields[OF ok pv n]
    show "raised (main env fl) = [TempDirError]" "exit_status (main env fl) = 2"
      "tmp_dir (main env fl) = None" "written (main env fl) = []"
      "filter is_sink_write (trace (main env fl)) = []"
      by (rule f)+
    show "filter is_create (trace (main env fl)) = [MkdirTemp]"
      by (simp add: created_events ok pv n)
  next
    assume "os_mkdir_temp env = Some d \<and> \<not> os_create env (path_join d ''out.html'')"
    then have s: "os_mkdir_temp env = Some d" and c: "\<not> os_create env (path_join d ''out.html'')"
      by simp_all
    note f = no_file_fields[OF ok pv s c]
    show "raised (main env fl) = [TempFileError]" "exit_status (main env fl) = 2"
      "written (main env fl) = []" "filter is_sink_write (trace (main env fl)) = []"
      "tmp_dir (main env fl) = (if os_remove_all env d then None else Some (d, []))"
      by (rule f)+
    show "RemoveAll d \<in> set (trace (main env fl))" by (simp add: f(5))
  next
    assume "os_mkdir_temp env = Some d \<and> os_create env (path_join d ''out.html'')"
    then have s: "os_mkdir_temp env = Some d" and c: "os_create env (path_join d ''out.html'')"
      by simp_all
    show "sink (main env fl) = TmpFile (path_join d ''out.html'')"
      by (rule file_fields(1)[OF ok pv s c])
    show "filter is_create (trace (main env fl)) = [MkdirTemp, CreateFile (path_join d ''out.html'')]"
      by (simp add: created_events ok pv s)
  qed
qed

theorem preview_sink_witness:
  "MkdirTemp \<in> set (trace (main env_mkdir_fails \<lparr>inPath = ''-'', previewOnly = True, style = False\<rparr>)) \<and>
   raised (main env_mkdir_fails \<lparr>inPath = ''-'', previewOnly = True, style = False\<rparr>) = [TempDirError] \<and>
   tmp_dir (main env_mkdir_fails \<lparr>inPath = ''-'', previewOnly = True, style = False\<rparr>) = None \<and>
   MkdirTemp \<in> set (trace (main env_create_fails \<lparr>inPath = ''-'', previewOnly = True, style = False\<rparr>)) \<and>
   raised (main env_create_fails \<lparr>inPath = ''-'', previewOnly = True, style = False\<rparr>) = [TempFileError] \<and>
   RemoveAll ''/tmp/rmd1'' \<in>
     set (trace (main env_create_fails \<lparr>inPath = ''-'', previewOnly = True, style = False\<rparr>)) \<and>
   MkdirTemp \<in> set (trace (main env_demo \<lparr>inPath = ''-'', previewOnly = True, style = True\<rparr>)) \<and>
   sink (main env_demo \<lparr>inPath = ''-'', previewOnly = True, style = True\<rparr>) =
     TmpFile ''/tmp/rmd1/out.html'' \<and>
   filter is_create (trace (main env_demo \<lparr>inPath = ''-'', previewOnly = True, style = True\<rparr>)) =
     [MkdirTemp, CreateFile ''/tmp/rmd1/out.html'']"
proof -
  have a: "MkdirTemp \<in> set (trace (main env_mkdir_fails \<lparr>inPath = ''-'', previewOnly = True, style = False\<rparr>))"
    by (simp add: eval_defs)
  have b: "MkdirTemp \<in> set (trace (main env_create_fails \<lparr>inPath = ''-'', previewOnly = True, style = False\<rparr>))"
    by (simp add: eval_defs)
  have c: "MkdirTemp \<in> set (trace (main env_demo \<lparr>inPath = ''-'', previewOnly = True, style = True\<rparr>))"
    by (simp add: eval_defs)
  from a b c preview_sink[OF a, of "''/tmp/rmd1''"] preview_sink[OF b, of "''/tmp/rmd1''"]
    preview_sink[OF c, of "''/tmp/rmd1''"]
  show ?thesis
    by (simp add: env_demo_def env_mkdir_fails_def env_create_fails_def path_join_def)
qed

subsection \<open>The delay after the launch\<close>

text \<open>
  C6, as stated: the process waits about one second after the launch attempt, whether the
  launch succeeds or fails. Counterexample: a preview run in which \<^verbatim>\<open>open\<close> fails; the
  deferred function panics before \<^verbatim>\<open>time.Sleep\<close>, and the directory is removed at once.
\<close>

theorem no_delay_after_failed_launch_counterexample:
  "trace (main env_launch_fails \<lparr>inPath = ''-'', previewOnly = True, style = False\<rparr>) =
     [ReadAll, MkdirTemp, CreateFile ''/tmp/rmd1/out.html'', Convert,
      RunOpen ''/tmp/rmd1/out.html'', CloseOutput, RemoveAll ''/tmp/rmd1'']"
  by (simp add: eval_defs)

text \<open>
  C6, amended. In every run in which the launch command is attempted: when it succeeds,
  the next call is \<^verbatim>\<open>time.Sleep\<close> of one second, and only then the output file is closed
  and the temporary directory removed; when it fails, the run panics with \<open>LaunchError\<close>
  and exits with status 2, the output file is closed and the directory removed at once,
  and the run does not sleep at all.
\<close>

theorem delay_after_launch:
  assumes "RunOpen p \<in> set (trace (main env fl))" and "os_mkdir_temp env = Some d"
  shows "(open_cmd env p \<longrightarrow>
            take 3 (after_launch (trace (main env fl))) =
              [SleepSeconds 1, CloseOutput, RemoveAll d]) \<and>
         (\<not> open_cmd env p \<longrightarrow>
            take 2 (after_launch (trace (main env fl))) = [CloseOutput, RemoveAll d] \<and>
            last (raised (main env fl)) = LaunchError \<and> exit_status (main env fl) = 2 \<and>
            (\<forall>k. SleepSeconds k \<notin> set (trace (main env fl))))"
proof -
  from launch_only_with_file[OF assms(1)] assms(2)
  have ok: "panicking (read_input env fl init_state) = None" and pv: "previewOnly fl"
    and cr: "os_create env (path_join d ''out.html'')"
    by auto
  let ?out = "path_join d ''out.html''"
  let ?n = "length (defers (read_input env fl init_state))"
  from file_fields(4)[OF ok pv assms(2) cr] obtain pre L where
    t: "trace (main env fl) = pre @ L @ [CloseOutput, RemoveAll d] @ replicate ?n CloseInput"
    and pre: "\<forall>e\<in>set pre. (\<forall>q. e \<noteq> RunOpen q) \<and> (\<forall>k. e \<noteq> SleepSeconds k) \<and>
              (\<forall>x. e \<noteq> RemoveAll x) \<and> e \<noteq> CloseInput"
    and L: "L = [] \<or> L = [RunOpen ?out, SleepSeconds 1] \<and> open_cmd env ?out \<or>
           L = [RunOpen ?out] \<and> \<not> open_cmd env ?out \<and>
             last (raised (main env fl)) = LaunchError \<and> exit_status (main env fl) = 2"
    by blast
  from pre have sk: "after_launch (pre @ ys) = after_launch ys" for ys
    by (intro after_launch_skip) blast
  from pre have np: "RunOpen p \<notin> set pre" and ns: "SleepSeconds k \<notin> set pre" for k
    by blast+
  from assms(1) np have inL: "RunOpen p \<in> set L"
    by (auto simp: t)
  from L show ?thesis
  proof (elim disjE conjE)
    assume "L = []"
    with inL show ?thesis by simp
  next
    assume l: "L = [RunOpen ?out, SleepSeconds 1]" and o: "open_cmd env ?out"
    with inL have "p = ?out" by simp
    with o l show ?thesis by (simp add: t sk)
  next
    assume l: "L = [RunOpen ?out]" and o: "\<not> open_cmd env ?out"
      and r: "last (raised (main env fl)) = LaunchError" "exit_status (main env fl) = 2"
    with inL have "p = ?out" by simp
    with o l r ns show ?thesis by (simp add: t sk)
  qed
qed

theorem delay_after_launch_witness:
  "RunOpen ''/tmp/rmd1/out.html'' \<in>
     set (trace (main env_demo \<lparr>inPath = ''-'', previewOnly = True, style = True\<rparr>)) \<and>
   take 3 (after_launch (trace (main env_demo \<lparr>inPath = ''-'', previewOnly = True, style = True\<rparr>))) =
     [SleepSeconds 1, CloseOutput, RemoveAll ''/tmp/rmd1''] \<and>
   RunOpen ''/tmp/rmd1/out.html'' \<in>
     set (trace (main env_launch_fails \<lparr>inPath = ''-'', previewOnly = True, style = False\<rparr>)) \<and>
   take 2 (after_launch (trace (main env_launch_fails \<lparr>inPath = ''-'', previewOnly = True, style = False\<rparr>))) =
     [CloseOutput, RemoveAll ''/tmp/rmd1''] \<and>
   exit_status (main env_launch_fails \<lparr>inPath = ''-'', previewOnly = True, style = False\<rparr>) = 2"
proof -
  have a: "RunOpen ''/tmp/rmd1/out.html'' \<in>
     set (trace (main env_demo \<lparr>inPath = ''-'', previewOnly = True, style = True\<rparr>))"
    by (simp add: eval_defs)
  have b: "RunOpen ''/tmp/rmd1/out.html'' \<in>
     set (trace (main env_launch_fails \<lparr>inPath = ''-'', previewOnly = True, style = False\<rparr>))"
    by (simp add: eval_defs)
  have c: "os_mkdir_temp env_demo = Some ''/tmp/rmd1''" "os_mkdir_temp env_launch_fails = Some ''/tmp/rmd1''"
    by (simp_all add: env_demo_def env_launch_fails_def)
  from a b delay_after_launch[OF a c(1)] delay_after_launch[OF b c(2)]
  show ?thesis
    by (simp add: env_demo_def env_launch_fails_def)
qed

subsection \<open>Cleanup\<close>

text \<open>
  C7, as stated: after the process exits the temporary directory no longer exists.
  Counterexample: a preview run in which everything works but \<^verbatim>\<open>os.RemoveAll\<close>; the
  process exits with status 0 and the directory, with \<^verbatim>\<open>out.html\<close> in it, is still there.
\<close>

theorem directory_remains_counterexample:
  "exit_status (main env_remove_fails \<lparr>inPath = ''-'', previewOnly = True, style = False\<rparr>) = 0 \<and>
   RemoveAll ''/tmp/rmd1'' \<in>
     set (trace (main env_remove_fails \<lparr>inPath = ''-'', previewOnly = True, style = False\<rparr>)) \<and>
   tmp_dir (main env_remove_fails \<lparr>inPath = ''-'', previewOnly = True, style = False\<rparr>) =
     Some (''/tmp/rmd1'', [''out.html''])"
  by (simp add: eval_defs)

text \<open>
  C7, amended. In every run in which the temporary directory was created, its removal is
  attempted, whatever happens before (a file that cannot be created, a failed prefix,
  conversion or suffix, a failed launch): it is the last call of the run but for closing
  the input file. When the removal succeeds the directory no longer exists at exit; when
  it fails the directory is still there and the failure is on standard error.
\<close>

theorem temp_dir_removed:
  assumes "MkdirTemp \<in> set (trace (main env fl))" and "os_mkdir_temp env = Some d"
  shows "RemoveAll d \<in> set (trace (main env fl)) \<and>
         last (removeAll CloseInput (trace (main env fl))) = RemoveAll d \<and>
         (os_remove_all env d \<longrightarrow> tmp_dir (main env fl) = None) \<and>
         (\<not> os_remove_all env d \<longrightarrow>
            tmp_dir (main env fl) \<noteq> None \<and> RemoveFailed d \<in> set (stderr (main env fl)))"
proof -
  from mkdir_attempted[OF assms(1)]
  have ok: "panicking (read_input env fl init_state) = None" and pv: "previewOnly fl" by simp_all
  show ?thesis
  proof (cases "os_create env (path_join d ''out.html'')")
    case False
    note f = no_file_fields[OF ok pv assms(2) False]
    show ?thesis
      using f(7) by (simp add: f(5,6) removeAll_replicate_same)
  next
    case True
    note f = file_fields[OF ok pv assms(2) True]
    from f(4) obtain pre L where
      t: "trace (main env fl) = pre @ L @ [CloseOutput, RemoveAll d] @
            replicate (length (defers (read_input env fl init_state))) CloseInput"
      by blast
    show ?thesis
      using f(3) by (simp add: t f(2) removeAll_replicate_same)
  qed
qed

theorem temp_dir_removed_witness:
  "MkdirTemp \<in> set (trace (main env_demo \<lparr>inPath = ''doc.md'', previewOnly = True, style = True\<rparr>)) \<and>
   RemoveAll ''/tmp/rmd1'' \<in>
     set (trace (main env_demo \<lparr>inPath = ''doc.md'', previewOnly = True, style = True\<rparr>)) \<and>
   tmp_dir (main env_demo \<lparr>inPath = ''doc.md'', previewOnly = True, style = True\<rparr>) = None \<and>
   MkdirTemp \<in> set (trace (main env_remove_fails \<lparr>inPath = ''-'', previewOnly = True, style = False\<rparr>)) \<and>
   RemoveFailed ''/tmp/rmd1'' \<in>
     set (stderr (main env_remove_fails \<lparr>inPath = ''-'', previewOnly = True, style = False\<rparr>))"
proof -
  have a: "MkdirTemp \<in> set (trace (main env_demo \<lparr>inPath = ''doc.md'', previewOnly = True, style = True\<rparr>))"
    by (simp add: eval_defs)
  have b: "MkdirTemp \<in> set (trace (main env_remove_fails \<lparr>inPath = ''-'', previewOnly = True, style = False\<rparr>))"
    by (simp add: eval_defs)
  have c: "os_mkdir_temp env_demo = Some ''/tmp/rmd1''" "os_mkdir_temp env_remove_fails = Some ''/tmp/rmd1''"
    by (simp_all add: env_demo_def env_remove_fails_def)
  from a b temp_dir_removed[OF a c(1)] temp_dir_removed[OF b c(2)]
  show ?thesis
    by (simp add: env_demo_def env_remove_fails_def)
qed

subsection \<open>The prefix template cannot fail\<close>

lemma parse_failure:
  assumes np: "template_parse tmpl = None"
    and pt: "ParseTemplate \<in> set (trace (main_with tmpl env fl))"
  shows "raised (main_with tmpl env fl) = [TemplateError] \<and>
         written (main_with tmpl env fl) = [] \<and>
         filter is_sink_write (trace (main_with tmpl env fl)) = [] \<and>
         (\<not> previewOnly fl \<longrightarrow> exit_status (main_with tmpl env fl) = 2)"
proof -
  let ?s1 = "read_input env fl init_state"
  let ?s2 = "select_sink env fl ?s1"
  have inp: "ParseTemplate \<notin> set (trace ?s1)"
    using read_input_fields(6)[of env fl] by auto
  have c: "set (defers ?s1) \<subseteq> {DeferCloseInput}" by (rule read_input_fields)
  have ok: "panicking ?s1 = None"
  proof (rule ccontr)
    assume "panicking ?s1 \<noteq> None"
    from input_failed[OF this, of tmpl] pt inp show False by simp
  qed
  note r1 = read_input_ok[OF ok]
  have m: "main_with tmpl env fl =
      finish (run_defers env (next_stage (next_stage ?s2 (write_prefix tmpl env fl)) (convert env)))"
    by (rule input_read[OF ok])
  have t2: "ParseTemplate \<notin> set (trace ?s2)"
    using inp select_sink_no_parse_event by blast
  have st: "style fl"
  proof (rule ccontr)
    assume ns: "\<not> style fl"
    have w: "write_prefix tmpl env fl = (\<lambda>s. s)"
      by (rule ext) (simp add: write_prefix_off[OF ns])
    have "ParseTemplate \<notin> set (trace (next_stage (next_stage ?s2 (\<lambda>s. s)) (convert env)))"
      using t2 by (simp add: next_stage_def trace_convert)
    from no_parse_event_after[OF this] pt show False by (simp add: m w)
  qed
  have p2: "panicking ?s2 = None"
  proof (rule ccontr)
    assume "panicking ?s2 \<noteq> None"
    then obtain e where e: "panicking ?s2 = Some e" by auto
    have "next_stage (next_stage ?s2 (write_prefix tmpl env fl)) (convert env) = ?s2"
      by (simp only: next_stage_skip[OF e])
    with no_parse_event_after[OF t2] pt show False by (simp add: m)
  qed
  let ?s3 = "?s2\<lparr>panicking := Some TemplateError, raised := raised ?s2 @ [TemplateError],
          trace := trace ?s2 @ [ParseTemplate]\<rparr>"
  have p3: "panicking ?s3 = Some TemplateError" by simp
  have B: "next_stage (next_stage ?s2 (write_prefix tmpl env fl)) (convert env) = ?s3"
    by (simp only: next_stage_run[OF p2] write_prefix_parse_fails[OF st np] next_stage_skip[OF p3])
  have out: "main_with tmpl env fl = finish (fold (run_deferred env) (defers ?s2) ?s3)"
    by (simp add: m B run_defers_def)
  show ?thesis
  proof (cases "previewOnly fl")
    case False
    show ?thesis
      unfolding out select_sink_stdout[OF False]
      using r1 False by (simp add: fold_close_input[OF c] read_input_fields input_trace_filters
          exit_status_def)
  next
    case True
    with select_sink_panicking[OF ok p2] obtain d where
      d: "os_mkdir_temp env = Some d" "os_create env (path_join d ''out.html'')"
      by blast
    show ?thesis
      unfolding out select_sink_file[OF True d]
      using r1 True by (simp add: fold_close_input[OF c] read_input_fields input_trace_filters
          run_deferred_eq)
  qed
qed

lemma no_template_error: "TemplateError \<notin> set (raised (main env fl))"
  unfolding main_def
proof (rule main_invariant[where P = "\<lambda>s. TemplateError \<notin> set (raised s)"])
  show "TemplateError \<notin> set (raised (read_input env fl init_state))"
    by (simp add: read_input_def read_all_def panic_def record_event_def add_defer_def
          init_state_def Let_def split: open_result.splits option.splits)
next
  fix s :: state assume "TemplateError \<notin> set (raised s)"
  then show "TemplateError \<notin> set (raised (select_sink env fl s))"
    by (simp add: select_sink_def Let_def record_event_def panic_def add_defer_def
          split: option.splits)
next
  fix s :: state assume "TemplateError \<notin> set (raised s)"
  then show "TemplateError \<notin> set (raised (write_prefix htmlPrefixWithCSS env fl s))"
    by (simp add: write_prefix_eq)
next
  fix s :: state assume "TemplateError \<notin> set (raised s)"
  then show "TemplateError \<notin> set (raised (convert env s))"
    by (simp add: convert_eq)
next
  fix d and s :: state assume "TemplateError \<notin> set (raised s)"
  then show "TemplateError \<notin> set (raised (run_deferred env d s))"
    by (cases d) (simp_all add: run_deferred_eq split: option.splits)
next
  fix s :: state assume "TemplateError \<notin> set (raised s)"
  then show "TemplateError \<notin> set (raised (finish s))" by simp
qed

text \<open>
  C9. When the prefix template cannot be parsed, a run that gets to parsing it panics with
  \<open>TemplateError\<close>: nothing is written or converted, and without \<^verbatim>\<open>-preview\<close> the process
  exits with status 2. The template of the program is a literal that parses, so no run
  of \<open>main\<close> raises \<open>TemplateError\<close>.
\<close>

theorem template_error_unreachable:
  "(template_parse tmpl = None \<and> ParseTemplate \<in> set (trace (main_with tmpl env fl)) \<longrightarrow>
      raised (main_with tmpl env fl) = [TemplateError] \<and>
      written (main_with tmpl env fl) = [] \<and>
      filter is_sink_write (trace (main_with tmpl env fl)) = [] \<and>
      (\<not> previewOnly fl \<longrightarrow> exit_status (main_with tmpl env fl) = 2)) \<and>
   template_parse htmlPrefixWithCSS = Some prefix_nodes \<and>
   TemplateError \<notin> set (raised (main env fl))"
  using parse_failure[of tmpl env fl] parse_prefix no_template_error[of env fl] by blast

theorem template_error_unreachable_witness:
  "template_parse unclosed_template = None \<and>
   ParseTemplate \<in> set (trace (main_with unclosed_template env_demo
      \<lparr>inPath = ''-'', previewOnly = False, style = True\<rparr>)) \<and>
   raised (main_with unclosed_template env_demo
      \<lparr>inPath = ''-'', previewOnly = False, style = True\<rparr>) = [TemplateError] \<and>
   written (main_with unclosed_template env_demo
      \<lparr>inPath = ''-'', previewOnly = False, style = True\<rparr>) = [] \<and>
   exit_status (main_with unclosed_template env_demo
      \<lparr>inPath = ''-'', previewOnly = False, style = True\<rparr>) = 2 \<and>
   TemplateError \<notin> set (raised (main env_demo \<lparr>inPath = ''-'', previewOnly = False, style = True\<rparr>))"
proof -
  have a: "template_parse unclosed_template = None"
    by (simp add: template_parse_def unclosed_template_def is_alnum_def text_node_def)
  have b: "ParseTemplate \<in> set (trace (main_with unclosed_template env_demo
      \<lparr>inPath = ''-'', previewOnly = False, style = True\<rparr>))"
    by (simp add: a eval_defs)
  from a b template_error_unreachable[of unclosed_template env_demo
      "\<lparr>inPath = ''-'', previewOnly = False, style = True\<rparr>"]
  show ?thesis by simp
qed

subsection \<open>Cleanup failures and recovered panics\<close>

lemma remove_all_deferred:
  assumes "\<exists>a b. st' = st\<lparr>tmp_dir := a, stderr := b\<rparr>"
  shows "\<exists>a b. run_deferred (env\<lparr>os_remove_all := r\<rparr>) d st' =
           (run_deferred env d st)\<lparr>tmp_dir := a, stderr := b\<rparr>"
proof -
  let ?t' = "run_deferred (env\<lparr>os_remove_all := r\<rparr>) d st'"
  from assms obtain a b where s: "st' = st\<lparr>tmp_dir := a, stderr := b\<rparr>" by blast
  have "?t' = (run_deferred env d st)\<lparr>tmp_dir := tmp_dir ?t', stderr := stderr ?t'\<rparr>"
    unfolding s
    by (rule state.equality; cases d;
        simp add: run_deferred_eq fits_def accepted_def split: option.splits)
  then show ?thesis by blast
qed

lemma remove_all_defers:
  assumes "\<exists>a b. st' = st\<lparr>tmp_dir := a, stderr := b\<rparr>"
  shows "\<exists>a b. fold (run_deferred (env\<lparr>os_remove_all := r\<rparr>)) ds st' =
           (fold (run_deferred env) ds st)\<lparr>tmp_dir := a, stderr := b\<rparr>"
  using assms
proof (induction ds arbitrary: st st')
  case Nil
  then show ?case by simp
next
  case (Cons d ds)
  from remove_all_deferred[OF Cons.prems, where env = env and r = r and d = d]
  have "\<exists>a b. run_deferred (env\<lparr>os_remove_all := r\<rparr>) d st' =
           (run_deferred env d st)\<lparr>tmp_dir := a, stderr := b\<rparr>" .
  from Cons.IH[OF this] show ?case by simp
qed

lemma remove_all_body:
  "main_body htmlPrefixWithCSS (env\<lparr>os_remove_all := r\<rparr>) fl = main_body htmlPrefixWithCSS env fl"
proof -
  have 1: "read_input (env\<lparr>os_remove_all := r\<rparr>) fl st = read_input env fl st" for st
    by (simp add: read_input_def Let_def)
  have 2: "select_sink (env\<lparr>os_remove_all := r\<rparr>) fl = select_sink env fl"
    by (rule ext) (simp add: select_sink_def Let_def split: option.splits)
  have 3: "write_prefix htmlPrefixWithCSS (env\<lparr>os_remove_all := r\<rparr>) fl =
      write_prefix htmlPrefixWithCSS env fl"
    by (rule ext) (simp add: write_prefix_eq fits_def accepted_def)
  have 4: "convert (env\<lparr>os_remove_all := r\<rparr>) = convert env"
    by (rule ext) (simp add: convert_eq fits_def accepted_def)
  show ?thesis by (simp only: main_body_def 1 2 3 4)
qed

text \<open>
  A failing \<^verbatim>\<open>os.RemoveAll\<close> is not fatal: whatever \<^verbatim>\<open>os.RemoveAll\<close> answers, the panics,
  the exit status, the content of the sink and the calls of the run are the same.
\<close>

lemma cleanup_failure_not_fatal:
  "raised (main (env\<lparr>os_remove_all := r\<rparr>) fl) = raised (main env fl) \<and>
   exit_status (main (env\<lparr>os_remove_all := r\<rparr>) fl) = exit_status (main env fl) \<and>
   written (main (env\<lparr>os_remove_all := r\<rparr>) fl) = written (main env fl) \<and>
   trace (main (env\<lparr>os_remove_all := r\<rparr>) fl) = trace (main env fl)"
proof -
  let ?B = "main_body htmlPrefixWithCSS env fl"
  have "\<exists>a b. ?B = ?B\<lparr>tmp_dir := a, stderr := b\<rparr>"
    by (intro exI[of _ "tmp_dir ?B"] exI[of _ "stderr ?B"]) simp
  from remove_all_defers[OF this, where env = env and r = r and ds = "defers ?B"] obtain a b where
    "fold (run_deferred (env\<lparr>os_remove_all := r\<rparr>)) (defers ?B) ?B =
       (fold (run_deferred env) (defers ?B) ?B)\<lparr>tmp_dir := a, stderr := b\<rparr>"
    by blast
  then show ?thesis
    by (simp add: main_def main_with_def run_defers_def remove_all_body exit_status_def)
qed

text \<open>
  C8. In preview mode a failure while removing the temporary directory is only reported
  (lemma \<open>cleanup_failure_not_fatal\<close>); the claim adds that it is the only error that is
  not fatal. The run below has
  \<^verbatim>\<open>-preview\<close> and an engine that fails: \<^verbatim>\<open>main\<close> panics with the conversion error, the
  deferred preview function calls \<^verbatim>\<open>recover()\<close>, prints that it skips the preview and
  returns, so the panic is over, nothing tells which stage failed and the process
  exits with status 0.
\<close>

theorem render_failure_in_preview_exits_zero:
  "raised (main env_render_fails \<lparr>inPath = ''-'', previewOnly = True, style = False\<rparr>) = [RenderError] \<and>
   exit_status (main env_render_fails \<lparr>inPath = ''-'', previewOnly = True, style = False\<rparr>) = 0 \<and>
   stderr (main env_render_fails \<lparr>inPath = ''-'', previewOnly = True, style = False\<rparr>) = [SkipPreview]"
  by (simp add: eval_defs)

lemma no_suffix_event_defers:
  assumes "DeferSuffix \<notin> set ds" "CopySuffix \<notin> set (trace st)"
  shows "CopySuffix \<notin> set (trace (finish (fold (run_deferred env) ds st)))"
proof -
  have "CopySuffix \<notin> set (trace (fold (run_deferred env) ds st))"
  proof (rule fold_rule[where P = "\<lambda>s. CopySuffix \<notin> set (trace s)"])
    show "CopySuffix \<notin> set (trace st)" by fact
  next
    fix d and s :: state
    assume "d \<in> set ds" "CopySuffix \<notin> set (trace s)"
    with assms(1) show "CopySuffix \<notin> set (trace (run_deferred env d s))"
      by (cases d) (auto simp: trace_run_deferred)
  qed
  then show ?thesis by simp
qed

lemma no_render_error_defers:
  assumes "RenderError \<notin> set (raised st)"
  shows "RenderError \<notin> set (raised (finish (fold (run_deferred env) ds st)))"
proof -
  have "RenderError \<notin> set (raised (fold (run_deferred env) ds st))"
    using assms
  proof (rule fold_rule[where P = "\<lambda>s. RenderError \<notin> set (raised s)"])
    fix d and s :: state
    assume "RenderError \<notin> set (raised s)"
    then show "RenderError \<notin> set (raised (run_deferred env d s))"
      by (cases d) (simp_all add: run_deferred_eq split: option.splits)
  qed
  then show ?thesis by simp
qed

lemma rest_render_failure:
  assumes p: "panicking s2 = None" and w: "written s2 = []"
    and r: "RenderError \<notin> set (raised s2)" and t: "CopySuffix \<notin> set (trace s2)"
    and d: "DeferSuffix \<notin> set (defers s2)"
    and h: "RenderError \<in> set (raised (finish (run_defers env
           (next_stage (next_stage s2 (write_prefix htmlPrefixWithCSS env fl)) (convert env)))))"
  shows "CopySuffix \<notin> set (trace (finish (run_defers env
           (next_stage (next_stage s2 (write_prefix htmlPrefixWithCSS env fl)) (convert env)))))"
proof (cases "style fl")
  case False
  have B: "next_stage (next_stage s2 (write_prefix htmlPrefixWithCSS env fl)) (convert env) =
      convert env s2"
    by (simp add: next_stage_run[OF p] write_prefix_off[OF False])
  have "CopySuffix \<notin> set (trace (finish (fold (run_deferred env) (defers s2) (convert env s2))))"
    using d t by (intro no_suffix_event_defers) (simp_all add: trace_convert)
  moreover have "defers (convert env s2) = defers s2" by (simp add: convert_eq)
  ultimately show ?thesis
    unfolding B run_defers_def by simp
next
  case True
  let ?body = "fst (md_convert env md (mdTxt s2))"
  show ?thesis
  proof (cases "fits env (length htmlPreamble)")
    case False
    let ?s3 = "write_prefix htmlPrefixWithCSS env fl s2"
    from True False w have q: "panicking ?s3 = Some PrefixWriteError"
      and ds: "defers ?s3 = defers s2" and tr: "trace ?s3 = trace s2 @ [ParseTemplate, ExecuteTemplate]"
      by (simp_all add: write_prefix_eq)
    have B: "next_stage (next_stage s2 (write_prefix htmlPrefixWithCSS env fl)) (convert env) = ?s3"
      by (simp only: next_stage_run[OF p] next_stage_skip[OF q])
    have "CopySuffix \<notin> set (trace (finish (fold (run_deferred env) (defers s2) ?s3)))"
      using d t by (intro no_suffix_event_defers) (simp_all add: tr)
    then show ?thesis
      unfolding B run_defers_def ds .
  next
    case fp: True
    let ?s3 = "s2\<lparr>written := htmlPreamble, defers := DeferSuffix # defers s2,
                   trace := trace s2 @ [ParseTemplate, ExecuteTemplate]\<rparr>"
    have s3: "next_stage s2 (write_prefix htmlPrefixWithCSS env fl) = ?s3"
      using True fp w by (simp add: next_stage_run[OF p] write_prefix_eq)
    have p3: "panicking ?s3 = None" using p by simp
    show ?thesis
    proof (cases "snd (md_convert env md (mdTxt s2)) \<and> fits env (length htmlPreamble + length ?body)")
      case True
      then have "RenderError \<notin> set (raised (convert env ?s3))"
        using r by (simp add: convert_eq)
      from no_render_error_defers[OF this] h show ?thesis
        unfolding s3 next_stage_run[OF p3] run_defers_def by blast
    next
      case False
      let ?B = "s2\<lparr>written := htmlPreamble @ accepted env (length htmlPreamble) ?body,
                     defers := DeferSuffix # defers s2,
                     panicking := Some RenderError,
                     raised := raised s2 @ [RenderError],
                     trace := trace s2 @ [ParseTemplate, ExecuteTemplate, Convert]\<rparr>"
      have B: "convert env ?s3 = ?B"
        using False by (auto simp: convert_eq)
      have S: "run_deferred env DeferSuffix ?B = ?B\<lparr>panicking := None\<rparr>"
        by (simp add: run_deferred_suffix)
      have "CopySuffix \<notin> set (trace (finish (fold (run_deferred env) (defers s2) (?B\<lparr>panicking := None\<rparr>))))"
        using d t by (intro no_suffix_event_defers) simp_all
      then show ?thesis
        unfolding s3 next_stage_run[OF p3] B run_defers_def by (simp add: S del: state.simps)
    qed
  qed
qed

text \<open>
  With or without \<^verbatim>\<open>-style\<close>, a run in which the conversion fails never writes the suffix.
\<close>

lemma render_failure_no_suffix:
  assumes "RenderError \<in> set (raised (main env fl))"
  shows "CopySuffix \<notin> set (trace (main env fl))"
proof (cases "panicking (read_input env fl init_state) = None")
  case False
  have "CopySuffix \<notin> set (trace (read_input env fl init_state))"
    using read_input_fields(6)[of env fl] by auto
  then show ?thesis
    by (simp add: main_def input_failed[OF False])
next
  case ok: True
  let ?s1 = "read_input env fl init_state"
  have t1: "CopySuffix \<notin> set (trace ?s1)"
    using read_input_fields(6)[of env fl] by auto
  have d1: "DeferSuffix \<notin> set (defers ?s1)"
    using read_input_fields(5)[of env fl] by auto
  have w1: "written ?s1 = []" by (rule read_input_fields)
  have r1: "RenderError \<notin> set (raised ?s1)" by (simp add: read_input_ok[OF ok])
  show ?thesis
  proof (cases "previewOnly fl")
    case False
    have m: "main env fl =
        finish (run_defers env (next_stage (next_stage ?s1 (write_prefix htmlPrefixWithCSS env fl)) (convert env)))"
      by (simp add: main_def input_read[OF ok] select_sink_stdout[OF False])
    from assms show ?thesis
      unfolding m by (rule rest_render_failure[OF ok w1 r1 t1 d1])
  next
    case pv: True
    show ?thesis
    proof (cases "os_mkdir_temp env")
      case None
      with t1 show ?thesis by (simp add: no_dir_fields(6)[OF ok pv None])
    next
      case (Some d)
      show ?thesis
      proof (cases "os_create env (path_join d ''out.html'')")
        case False
        with t1 show ?thesis by (simp add: no_file_fields(5)[OF ok pv Some False])
      next
        case True
        let ?out = "path_join d ''out.html''"
        let ?s2 = "?s1\<lparr>sink := TmpFile ?out, tmp_dir := Some (d, [''out.html'']),
             defers := DeferPreview ?out # DeferCloseOutput # DeferRemoveAll d # defers ?s1,
             trace := trace ?s1 @ [MkdirTemp, CreateFile ?out]\<rparr>"
        have m: "main env fl =
            finish (run_defers env (next_stage (next_stage ?s2 (write_prefix htmlPrefixWithCSS env fl)) (convert env)))"
          by (simp add: main_def input_read[OF ok] select_sink_file[OF pv Some True])
        have f: "panicking ?s2 = None" "written ?s2 = []" "RenderError \<notin> set (raised ?s2)"
          "CopySuffix \<notin> set (trace ?s2)" "DeferSuffix \<notin> set (defers ?s2)"
          using ok w1 r1 t1 d1 by simp_all
        from assms show ?thesis
          unfolding m by (rule rest_render_failure[OF f])
      qed
    qed
  qed
qed

text \<open>
  C10. With \<^verbatim>\<open>-style\<close>, when the conversion fails after the preamble was written, the
  suffix is not written and the run aborts with the conversion error. The suffix is
  indeed never written (lemma \<open>render_failure_no_suffix\<close>), but the run does not abort
  with the error. The first run below has \<^verbatim>\<open>-style\<close> and an engine that fails after
  \<^verbatim>\<open><h1\<close>: the sink holds the preamble and the partial body, the deferred suffix
  function has called \<^verbatim>\<open>recover()\<close>, and the process exits with status 0 and prints
  nothing. The second has \<^verbatim>\<open>-preview\<close> too: the panic being over, the deferred preview
  function does not skip the preview and opens the truncated file.
\<close>

theorem render_failure_with_style_is_swallowed:
  "raised (main env_render_fails \<lparr>inPath = ''-'', previewOnly = False, style = True\<rparr>) = [RenderError] \<and>
   written (main env_render_fails \<lparr>inPath = ''-'', previewOnly = False, style = True\<rparr>) = htmlPreamble @ ''<h1'' \<and>
   exit_status (main env_render_fails \<lparr>inPath = ''-'', previewOnly = False, style = True\<rparr>) = 0 \<and>
   stderr (main env_render_fails \<lparr>inPath = ''-'', previewOnly = False, style = True\<rparr>) = [] \<and>
   raised (main env_render_fails \<lparr>inPath = ''-'', previewOnly = True, style = True\<rparr>) = [RenderError] \<and>
   RunOpen ''/tmp/rmd1/out.html'' \<in>
     set (trace (main env_render_fails \<lparr>inPath = ''-'', previewOnly = True, style = True\<rparr>)) \<and>
   exit_status (main env_render_fails \<lparr>inPath = ''-'', previewOnly = True, style = True\<rparr>) = 0"
  by (simp add: eval_defs)

end
